theory Spec2Isabelle
  imports Main "HOL-Library.Word" "HOL-Library.Sublist"
begin

unbundle bit_operations_syntax

section \<open>JSON values\<close>

text \<open>
  The values of the JSON library the handlers build their replies with.  An object keeps
  its members in insertion order with unique keys; an array is a list.  C strings are
  modelled by their content up to the terminator, so a \<^typ>\<open>string\<close> standing for a
  C string holds no NUL character; a byte buffer with an explicit length (the upload
  payload) is a \<^typ>\<open>string\<close> too, and may hold any byte.
\<close>

datatype json =
    JNull
  | JTrue
  | JFalse
  | JInteger int
  | JString string
  | JArray "json list"
  | JObject "(string \<times> json) list"

text \<open>\<^verbatim>\<open>json_object_set\<close>: replace the value of a present key, append a new member otherwise.\<close>

fun json_object_set :: "(string \<times> json) list \<Rightarrow> string \<Rightarrow> json \<Rightarrow> (string \<times> json) list" where
  "json_object_set [] k v = [(k, v)]"
| "json_object_set ((k', v') # ms) k v =
     (if k' = k then (k, v) # ms else (k', v') # json_object_set ms k v)"

text \<open>\<^verbatim>\<open>json_object_get\<close>: the value of a key, \<open>None\<close> for the C \<^verbatim>\<open>NULL\<close>.\<close>

fun json_object_get :: "(string \<times> json) list \<Rightarrow> string \<Rightarrow> json option" where
  "json_object_get [] k = None"
| "json_object_get ((k', v') # ms) k = (if k' = k then Some v' else json_object_get ms k)"


section \<open>Return codes\<close>

text \<open>
  The handlers return a C \<^verbatim>\<open>int\<close>: 0 when all went well, otherwise one of the constants of
  the HTTP and IMAP error tables.  The constants are distinct and nonzero, so a return
  value is \<open>None\<close> for 0 and \<open>Some c\<close> for the constant \<open>c\<close>; \<open>OTHER_ERROR n\<close> stands for
  any further nonzero code a collaborator may hand back.  \<open>NULL_DEREF\<close> is not a code of
  the program: it marks a path on which the C code would dereference a null pointer.
\<close>

datatype code =
    HTTP_OK
  | HTTP_CREATED
  | HTTP_NO_CONTENT
  | HTTP_MOVED
  | HTTP_BAD_REQUEST
  | HTTP_UNAUTHORIZED
  | HTTP_FORBIDDEN
  | HTTP_NOT_FOUND
  | HTTP_NOT_ALLOWED
  | HTTP_PAYLOAD_TOO_LARGE
  | HTTP_SERVER_ERROR
  | IMAP_NOTFOUND
  | IMAP_PERMISSION_DENIED
  | IMAP_INVALID_USER
  | IMAP_MAILBOX_NONEXISTENT
  | IMAP_MAILBOX_LOCKED
  | IMAP_MAILBOX_BADNAME
  | IMAP_INTERNAL
  | IMAP_IOERROR
  | OTHER_ERROR nat
  | NULL_DEREF

type_synonym rc = "code option"


section \<open>C strings\<close>

text \<open>
  \<^verbatim>\<open>strchr(s, c)\<close> returns a pointer to the first occurrence of \<open>c\<close> in \<open>s\<close>, or \<^verbatim>\<open>NULL\<close>.
  The pointer is modelled by the suffix of \<open>s\<close> it points at, so \<^verbatim>\<open>slash + 1\<close> is the tail
  of that suffix and \<^verbatim>\<open>slash - s\<close> is the difference of the lengths.
\<close>

fun strchr :: "string \<Rightarrow> char \<Rightarrow> string option" where
  "strchr [] c = None"
| "strchr (x # xs) c = (if x = c then Some (x # xs) else strchr xs c)"

text \<open>\<^verbatim>\<open>*p\<close> on a C string: its first character, the terminator when it is empty.\<close>

definition deref :: "string \<Rightarrow> char" where
  "deref p = (case p of [] \<Rightarrow> CHR 0x00 | c # _ \<Rightarrow> c)"

text \<open>\<^verbatim>\<open>xstrndup(s, n)\<close>: a copy of at most \<open>n\<close> characters of \<open>s\<close>.\<close>

definition xstrndup :: "string \<Rightarrow> nat \<Rightarrow> string" where
  "xstrndup s n = take n s"

text \<open>The decimal digits that \<^verbatim>\<open>printf("%u")\<close> writes.\<close>

fun dec :: "nat \<Rightarrow> string" where
  "dec n = (if n < 10 then [char_of (48 + n)] else dec (n div 10) @ [char_of (48 + n mod 10)])"

declare dec.simps [simp del]


section \<open>Settings and limits\<close>

text \<open>
  The indices of \<^verbatim>\<open>jmap_settings_t.limits\<close> and the configuration keys that
  \<^verbatim>\<open>jmap_core_init\<close> reads.  \<^verbatim>\<open>config_getint\<close> returns a C \<^verbatim>\<open>int\<close> (32 bits); the limits
  are C \<^verbatim>\<open>long\<close>, 64 bits on the LP64 platforms the server is built for.
\<close>

datatype jmap_limit =
    MAX_SIZE_REQUEST
  | MAX_CALLS_IN_REQUEST
  | MAX_CONCURRENT_REQUESTS
  | MAX_OBJECTS_IN_GET
  | MAX_OBJECTS_IN_SET
  | MAX_SIZE_UPLOAD
  | MAX_CONCURRENT_UPLOAD

datatype imapopt =
    IMAPOPT_JMAP_MAX_SIZE_UPLOAD
  | IMAPOPT_JMAP_MAX_CONCURRENT_UPLOAD
  | IMAPOPT_JMAP_MAX_SIZE_REQUEST
  | IMAPOPT_JMAP_MAX_CONCURRENT_REQUESTS
  | IMAPOPT_JMAP_MAX_CALLS_IN_REQUEST
  | IMAPOPT_JMAP_MAX_OBJECTS_IN_GET
  | IMAPOPT_JMAP_MAX_OBJECTS_IN_SET

datatype jmap_proc = Proc_jmap_blob_copy | Proc_jmap_blob_get | Proc_jmap_core_echo

record jmap_method =
  mname :: string
  proc :: jmap_proc
  mflags :: nat

record jmap_settings =
  methods :: "string \<rightharpoonup> jmap_method"
  can_use :: "string list"
  capabilities :: "json option"
  limits :: "jmap_limit \<Rightarrow> 64 word"

definition JMAP_SHARED_CSTATE :: nat where
  "JMAP_SHARED_CSTATE = 1"

definition JMAP_URN_CORE :: string where
  "JMAP_URN_CORE = ''urn:ietf:params:jmap:core''"

text \<open>\<^verbatim>\<open>my_jmap_settings\<close> as statically initialised: empty tables, every limit 0.\<close>

definition my_jmap_settings :: jmap_settings where
  "my_jmap_settings =
     \<lparr>methods = Map.empty, can_use = [], capabilities = None, limits = (\<lambda>_. 0)\<rparr>"

definition jmap_core_methods :: "jmap_method list" where
  "jmap_core_methods =
     [\<lparr>mname = ''Blob/copy'', proc = Proc_jmap_blob_copy, mflags = 0\<rparr>,
      \<lparr>mname = ''Blob/get'', proc = Proc_jmap_blob_get, mflags = JMAP_SHARED_CSTATE\<rparr>,
      \<lparr>mname = ''Core/echo'', proc = Proc_jmap_core_echo, mflags = JMAP_SHARED_CSTATE\<rparr>]"

text \<open>
  The macro \<^verbatim>\<open>_read_opt(val, optkey)\<close>: store the configured integer in the \<^verbatim>\<open>long\<close> (a
  sign extension), and when it is not positive write a line to the system log and store 0.
  The result is the stored value and the lines logged.  The option names of the
  configuration table (\<^verbatim>\<open>imapopts[optkey].optname\<close>) are a parameter.
\<close>

definition read_opt ::
  "(imapopt \<Rightarrow> string) \<Rightarrow> (imapopt \<Rightarrow> 32 word) \<Rightarrow> imapopt \<Rightarrow> 64 word \<times> string list" where
  "read_opt optname config_getint optkey =
     (let val = (scast (config_getint optkey) :: 64 word) in
      if word_sle val 0
      then (0, [''jmap: invalid property value: '' @ optname optkey])
      else (val, []))"

text \<open>
  \<^verbatim>\<open>jmap_core_init\<close>: read the seven limits in the order of the source, scale the two byte
  sizes by 1024 (a multiplication of \<^verbatim>\<open>long\<close>), announce the core capability and register
  the core methods.  The result is the settings and the lines written to the system log.
\<close>

definition jmap_core_init ::
  "(imapopt \<Rightarrow> string) \<Rightarrow> (imapopt \<Rightarrow> 32 word) \<Rightarrow> jmap_settings \<Rightarrow> jmap_settings \<times> string list" where
  "jmap_core_init optname config_getint s0 =
     (let lim = limits s0;
          (v, l1) = read_opt optname config_getint IMAPOPT_JMAP_MAX_SIZE_UPLOAD;
          lim = lim(MAX_SIZE_UPLOAD := v);
          lim = lim(MAX_SIZE_UPLOAD := lim MAX_SIZE_UPLOAD * 1024);
          (v, l2) = read_opt optname config_getint IMAPOPT_JMAP_MAX_CONCURRENT_UPLOAD;
          lim = lim(MAX_CONCURRENT_UPLOAD := v);
          (v, l3) = read_opt optname config_getint IMAPOPT_JMAP_MAX_SIZE_REQUEST;
          lim = lim(MAX_SIZE_REQUEST := v);
          lim = lim(MAX_SIZE_REQUEST := lim MAX_SIZE_REQUEST * 1024);
          (v, l4) = read_opt optname config_getint IMAPOPT_JMAP_MAX_CONCURRENT_REQUESTS;
          lim = lim(MAX_CONCURRENT_REQUESTS := v);
          (v, l5) = read_opt optname config_getint IMAPOPT_JMAP_MAX_CALLS_IN_REQUEST;
          lim = lim(MAX_CALLS_IN_REQUEST := v);
          (v, l6) = read_opt optname config_getint IMAPOPT_JMAP_MAX_OBJECTS_IN_GET;
          lim = lim(MAX_OBJECTS_IN_GET := v);
          (v, l7) = read_opt optname config_getint IMAPOPT_JMAP_MAX_OBJECTS_IN_SET;
          lim = lim(MAX_OBJECTS_IN_SET := v)
      in (s0\<lparr>limits := lim,
              can_use := can_use s0 @ [JMAP_URN_CORE],
              methods := fold (\<lambda>mp tab. tab(mname mp \<mapsto> mp)) jmap_core_methods Map.empty\<rparr>,
          l1 @ l2 @ l3 @ l4 @ l5 @ l6 @ l7))"



section \<open>The domain of uploaded data\<close>

datatype domain = DOMAIN_7BIT | DOMAIN_8BIT | DOMAIN_BINARY

text \<open>\<^verbatim>\<open>*p & 0x80\<close>: the high bit of a byte.\<close>

definition high_bit :: "char \<Rightarrow> bool" where
  "high_bit c = ((of_char c :: 8 word) AND 0x80 \<noteq> 0)"

text \<open>
  The loop of \<^verbatim>\<open>data_domain\<close> over the \<open>n\<close> bytes at \<open>p\<close>, with the running result \<open>r\<close>:
  a zero byte returns \<open>DOMAIN_BINARY\<close> at once, a byte with the high bit set makes the
  running result \<open>DOMAIN_8BIT\<close>.
\<close>

fun data_domain_loop :: "domain \<Rightarrow> string \<Rightarrow> domain" where
  "data_domain_loop r [] = r"
| "data_domain_loop r (c # p) =
     (if c = CHR 0x00 then DOMAIN_BINARY
      else data_domain_loop (if high_bit c then DOMAIN_8BIT else r) p)"

definition data_domain :: "string \<Rightarrow> domain" where
  "data_domain p = data_domain_loop DOMAIN_7BIT p"


section \<open>Collaborators\<close>

text \<open>
  The handlers call into the mail store, the mailbox list, the append machinery and the
  text utilities of the server, none of which is part of this file.  What those calls
  answer is a parameter of the model: the record \<open>backend\<close> holds the answers of the
  store, the record \<open>httpd\<close> the globals of the HTTP daemon and the text utilities.
  Each call into the store is also written to a trace of events, so that a theorem can
  say which calls a request made.  Lines written to the system log by the handlers are
  left out of the trace.  The field \<open>utf8_check_string\<close> is the check the JSON library
  makes on every string it is asked to wrap or to use as a key: it accepts the strings
  that are valid UTF-8, and so every string that was decoded from a JSON text.
\<close>

datatype acl_right = ACL_LOOKUP | ACL_READ | ACL_INSERT | ACL_CREATE

record mbentry =
  mbe_name :: string
  mbe_server :: "string option"

record mbname =
  mbn_localpart :: "string option"
  mbn_domain :: "string option"
  mbn_boxes :: "string list"

type_synonym message_guid = string

type_synonym msgrecord = nat

text \<open>A MIME part of a stored message: \<^verbatim>\<open>struct body\<close>, the fields the handlers read.\<close>

record body_part =
  header_offset :: nat
  header_size :: nat
  content_offset :: nat
  content_size :: nat
  charset_enc :: nat

text \<open>What \<^verbatim>\<open>jmap_findblob\<close> hands back through its out parameters when it returns 0.\<close>

record blobloc =
  bl_mbox :: string
  bl_mr :: msgrecord
  bl_body :: body_part
  bl_part :: "body_part option"
  bl_msg_buf :: "string option"

text \<open>A record of the conversations database: \<^verbatim>\<open>conv_guidrec_t\<close>.\<close>

record guidrec =
  gr_mboxid :: string
  gr_uid :: "32 word"
  gr_part :: "string option"

datatype event =
    Ev_mlookup string
  | Ev_proxy_findserver string
  | Ev_createmailbox string
  | Ev_open_iwl string
  | Ev_newstage string
  | Ev_append_setup string
  | Ev_append_fromstage string
  | Ev_append_abort
  | Ev_append_commit
  | Ev_removestage
  | Ev_mailbox_abort string
  | Ev_mailbox_commit string
  | Ev_mailbox_close string
  | Ev_conversations_open_user string
  | Ev_conversations_commit
  | Ev_findblob "string option" string
  | Ev_msgrecord_get_body msgrecord
  | Ev_guid_foreach string string
  | Ev_mbentry_by_uniqueid string
  | Ev_openmbox string
  | Ev_closembox string
  | Ev_msgrecord_find string "32 word"

record backend =
  mbname_from_userid :: "string \<Rightarrow> mbname"
  mbname_intname :: "mbname \<Rightarrow> string"
  mboxname_user_mbox :: "string \<Rightarrow> string"
  http_mlookup :: "string \<Rightarrow> code + mbentry"
  httpd_myrights :: "mbentry option \<Rightarrow> acl_right set"
  mboxlist_createmailbox :: "string \<Rightarrow> rc"
  mailbox_open_iwl :: "string \<Rightarrow> rc"
  append_newstage :: "string \<Rightarrow> bool"
  append_setup_mbox :: "string \<Rightarrow> rc"
  append_fromstage :: "string \<Rightarrow> string \<Rightarrow> code + message_guid"
  append_commit :: "string \<Rightarrow> rc"
  stage_ferror :: "string \<Rightarrow> bool"
  conversations_open_user :: "string \<Rightarrow> rc"
  jmap_findblob :: "string option \<Rightarrow> string \<Rightarrow> code + blobloc"
  msgrecord_get_body :: "msgrecord \<Rightarrow> code + string"
  conversations_guid_foreach :: "string \<Rightarrow> guidrec list \<times> rc"
  hash_iter_order :: "string list \<Rightarrow> string list"
  jmap_mbentry_by_uniqueid :: "string \<Rightarrow> mbentry option"
  jmap_myrights :: "mbentry \<Rightarrow> acl_right set"
  jmap_openmbox :: "string \<Rightarrow> rc"
  msgrecord_find :: "string \<Rightarrow> 32 word \<Rightarrow> code + msgrecord"
  msgrecord_get_guid :: "msgrecord \<Rightarrow> code + message_guid"
  msgrecord_get_cid :: "msgrecord \<Rightarrow> code + 64 word"

record httpd =
  httpd_userid :: string
  config_servername :: string
  httpd_extradomain :: "string option"
  jmapuploadfolder :: string
  charset_encode_mimeheader :: "string \<Rightarrow> string"
  charset_decode_mimeheader :: "string \<Rightarrow> string"
  charset_decode_mimebody :: "string \<Rightarrow> nat \<Rightarrow> string"
  time_to_rfc5322 :: "int \<Rightarrow> string"
  time_to_rfc3339 :: "int \<Rightarrow> string"
  json_dumps :: "json \<Rightarrow> string option"
  parse_accept :: "string \<Rightarrow> string option"
  message_parse_type :: "string \<Rightarrow> string option \<times> string option"
  jmap_set_emailid :: "message_guid \<Rightarrow> string"
  jmap_set_threadid :: "64 word \<Rightarrow> string"
  error_message :: "code \<Rightarrow> string"
  utf8_check_string :: "string \<Rightarrow> bool"

text \<open>
  \<^verbatim>\<open>strcmpsafe(a, b)\<close> compares two strings, a null pointer counting as the empty string;
  the model says whether the result is nonzero.
\<close>

definition strcmpsafe :: "string option \<Rightarrow> string option \<Rightarrow> bool" where
  "strcmpsafe a b =
     ((case a of None \<Rightarrow> [] | Some x \<Rightarrow> x) \<noteq> (case b of None \<Rightarrow> [] | Some y \<Rightarrow> y))"


section \<open>Building JSON values\<close>

text \<open>
  The constructors of the JSON library can fail, and the handlers do not test for it.
  \<^verbatim>\<open>json_string\<close> returns a null pointer for a string that fails the check;
  \<^verbatim>\<open>json_object_set_new\<close> (and \<^verbatim>\<open>json_object_set\<close>) leaves the object as it is when the key
  fails the check or the value is a null pointer; \<^verbatim>\<open>json_array_append_new\<close> leaves the
  array as it is when the value is a null pointer.  The string literals of the source
  are ASCII and pass the check, so it is applied to the strings that vary.
\<close>

definition json_string :: "httpd \<Rightarrow> string \<Rightarrow> json option" where
  "json_string hs v = (if utf8_check_string hs v then Some (JString v) else None)"

definition json_object_set_new ::
  "httpd \<Rightarrow> (string \<times> json) list \<Rightarrow> string \<Rightarrow> json option \<Rightarrow> (string \<times> json) list" where
  "json_object_set_new hs obj k v =
     (case v of
        None \<Rightarrow> obj
      | Some v' \<Rightarrow> if utf8_check_string hs k then json_object_set obj k v' else obj)"

definition json_array_append_new :: "json list \<Rightarrow> json option \<Rightarrow> json list" where
  "json_array_append_new arr v = (case v of None \<Rightarrow> arr | Some v' \<Rightarrow> arr @ [v'])"


section \<open>Blob ids\<close>

definition JMAP_BLOBID_SIZE :: nat where
  "JMAP_BLOBID_SIZE = 42"

definition hexdigits :: string where
  "hexdigits = ''0123456789abcdef''"

definition hex_digit :: "nat \<Rightarrow> char" where
  "hex_digit n = hexdigits ! n"

definition hex_byte :: "char \<Rightarrow> string" where
  "hex_byte c = [hex_digit (of_char c div 16), hex_digit (of_char c mod 16)]"

text \<open>
  Modelled from the spec: \<^verbatim>\<open>jmap_set_blobid\<close> is declared in the header and defined outside
  this file.  The specification gives the blob id as the sentinel character followed by
  the hexadecimal rendering of the content digest,  'G' || hex(content-sha1).
\<close>

definition jmap_set_blobid :: "message_guid \<Rightarrow> string" where
  "jmap_set_blobid guid = CHR ''G'' # concat (map hex_byte guid)"


section \<open>The upload collection\<close>

text \<open>
  \<^verbatim>\<open>lookup_upload_collection\<close> returns its code and leaves the mailbox entry in the out
  parameter, which starts as a null pointer in the caller.
\<close>

definition lookup_upload_collection ::
  "backend \<Rightarrow> httpd \<Rightarrow> string \<Rightarrow> rc \<times> mbentry option \<times> event list" where
  "lookup_upload_collection be hs accountid =
     (let mbname = mbname_from_userid be accountid;
          mbname = mbname\<lparr>mbn_boxes := mbn_boxes mbname @ [jmapuploadfolder hs]\<rparr>
      in
      if httpd_extradomain hs \<noteq> None \<and> mbn_localpart mbname \<noteq> None
         \<and> strcmpsafe (mbn_domain mbname) (httpd_extradomain hs)
      then (Some HTTP_NOT_FOUND, None, [])
      else
        let mbname = (if httpd_extradomain hs \<noteq> None then mbname\<lparr>mbn_domain := None\<rparr> else mbname);
            uploadname = mbname_intname be mbname
        in
        (case http_mlookup be uploadname of
           Inl r \<Rightarrow>
             if r = IMAP_MAILBOX_NONEXISTENT then
               let inboxname = mboxname_user_mbox be accountid;
                   ev = [Ev_mlookup uploadname, Ev_mlookup inboxname];
                   r1 = http_mlookup be inboxname;
                   mbentry = (case r1 of Inl _ \<Rightarrow> None | Inr e \<Rightarrow> Some e)
               in
               if r1 = Inl IMAP_MAILBOX_NONEXISTENT then (Some IMAP_INVALID_USER, mbentry, ev)
               else if ACL_CREATE \<notin> httpd_myrights be mbentry
               then (Some IMAP_PERMISSION_DENIED, mbentry, ev)
               else
                 (Some r,
                  Some (case mbentry of
                          Some e \<Rightarrow> e\<lparr>mbe_name := uploadname\<rparr>
                        | None \<Rightarrow> \<lparr>mbe_name = uploadname, mbe_server = None\<rparr>),
                  ev)
             else (Some r, None, [Ev_mlookup uploadname])
         | Inr e \<Rightarrow>
             if ACL_INSERT \<notin> httpd_myrights be (Some e)
             then (Some IMAP_PERMISSION_DENIED, Some e, [Ev_mlookup uploadname])
             else (None, Some e, [Ev_mlookup uploadname])))"

text \<open>
  \<^verbatim>\<open>create_upload_collection\<close>: the result is the error code, or the mailbox opened for
  writing.  Both callers pass a mailbox pointer, so the test \<^verbatim>\<open>if (mailbox)\<close> before
  \<^verbatim>\<open>mailbox_open_iwl\<close> holds.  \<^verbatim>\<open>mboxlist_createmailbox\<close> leaves the created mailbox in the
  out parameter when it returns 0.
\<close>

definition open_upload_mailbox :: "backend \<Rightarrow> mbentry option \<Rightarrow> event list \<Rightarrow> (code + string) \<times> event list" where
  "open_upload_mailbox be mbentry ev =
     (case mbentry of
        None \<Rightarrow> (Inl NULL_DEREF, ev)
      | Some e \<Rightarrow>
          (case mailbox_open_iwl be (mbe_name e) of
             Some r \<Rightarrow> (Inl r, ev @ [Ev_open_iwl (mbe_name e)])
           | None \<Rightarrow> (Inr (mbe_name e), ev @ [Ev_open_iwl (mbe_name e)])))"

definition create_upload_collection ::
  "backend \<Rightarrow> httpd \<Rightarrow> string \<Rightarrow> (code + string) \<times> event list" where
  "create_upload_collection be hs accountid =
     (let (r, mbentry, ev) = lookup_upload_collection be hs accountid in
      if r = Some IMAP_INVALID_USER then (Inl IMAP_INVALID_USER, ev)
      else if r = Some IMAP_PERMISSION_DENIED then (Inl IMAP_PERMISSION_DENIED, ev)
      else if r = Some IMAP_MAILBOX_NONEXISTENT then
        (case mbentry of
           None \<Rightarrow> (Inl IMAP_MAILBOX_NONEXISTENT, ev)
         | Some e \<Rightarrow>
             (case mbe_server e of
                Some server \<Rightarrow> (Inl IMAP_MAILBOX_NONEXISTENT, ev @ [Ev_proxy_findserver server])
              | None \<Rightarrow>
                  let r = mboxlist_createmailbox be (mbe_name e);
                      ev = ev @ [Ev_createmailbox (mbe_name e)]
                  in
                  if r = Some IMAP_MAILBOX_LOCKED then open_upload_mailbox be mbentry ev
                  else (case r of Some c \<Rightarrow> (Inl c, ev) | None \<Rightarrow> (Inr (mbe_name e), ev))))
      else (case r of
              Some c \<Rightarrow> (Inl c, ev)
            | None \<Rightarrow> open_upload_mailbox be mbentry ev))"


section \<open>HTTP transactions\<close>

text \<open>
  What a handler of the HTTP layer leaves behind: its return value, the error
  description and connection flag it set on the transaction, the response written with
  \<^verbatim>\<open>write_body\<close> (status, content type, file name of the disposition, body), the message
  written to the staging file (the header chunks, one per \<^verbatim>\<open>fprintf\<close> or \<^verbatim>\<open>fputs\<close>, and
  the data) and the trace of calls into the store.
\<close>

record http_result =
  ret :: rc
  error_desc :: "string option"
  conn_close :: bool
  resp :: "(code \<times> string \<times> string option \<times> string) option"
  stagefile :: "(string list \<times> string) option"
  events :: "event list"

definition result0 :: http_result where
  "result0 = \<lparr>ret = None, error_desc = None, conn_close = False, resp = None,
              stagefile = None, events = []\<rparr>"

text \<open>\<^verbatim>\<open>json_response\<close>: dump the object and write it with the given status.\<close>

definition json_response :: "httpd \<Rightarrow> code \<Rightarrow> http_result \<Rightarrow> json \<Rightarrow> http_result" where
  "json_response hs c res root =
     (case json_dumps hs root of
        None \<Rightarrow> res\<lparr>ret := Some HTTP_SERVER_ERROR, error_desc := Some ''Error dumping JSON object''\<rparr>
      | Some buf \<Rightarrow>
          res\<lparr>ret := None,
              resp := Some (c,
                            (if c = HTTP_OK \<or> c = HTTP_CREATED
                             then ''application/json; charset=utf-8''
                             else ''application/problem+json; charset=utf-8''),
                            None, buf)\<rparr>)"


section \<open>The upload endpoint\<close>

text \<open>
  The request as \<^verbatim>\<open>jmap_upload\<close> sees it: the code \<^verbatim>\<open>http_read_req_body\<close> returned and the
  decoded payload it left in the transaction, the resource part of the target path and
  the request headers (the first value of each).  The test \<^verbatim>\<open>*(slash + 1) != 0\<close> on the
  resource asks whether anything follows the slash: the tail of the suffix is not empty.
\<close>

record upload_txn =
  req_body_r :: rc
  payload :: string
  resource :: string
  req_hdrs :: "string \<rightharpoonup> string"

definition CRLF :: string where
  "CRLF = [CHR 0x0D, CHR 0x0A]"

text \<open>The header of the staged message, one chunk per \<^verbatim>\<open>fprintf\<close> or \<^verbatim>\<open>fputs\<close>.\<close>

definition upload_type :: "(string \<rightharpoonup> string) \<Rightarrow> string" where
  "upload_type hdrcache =
     (case hdrcache ''Content-Type'' of Some h \<Rightarrow> h | None \<Rightarrow> ''application/octet-stream'')"

definition upload_headers :: "httpd \<Rightarrow> int \<Rightarrow> (string \<rightharpoonup> string) \<Rightarrow> string \<Rightarrow> string list" where
  "upload_headers hs now hdrcache data =
     (case hdrcache ''User-Agent'' of Some h \<Rightarrow> [''User-Agent: '' @ h @ CRLF] | None \<Rightarrow> [])
     @ (case hdrcache ''From'' of
          Some h \<Rightarrow> [''From: '' @ h @ CRLF]
        | None \<Rightarrow>
            let buf = (if strchr (httpd_userid hs) CHR ''@'' \<noteq> None
                       then ''<'' @ httpd_userid hs @ ''>''
                       else ''<'' @ httpd_userid hs @ ''@'' @ config_servername hs @ ''>'')
            in [''From: '' @ charset_encode_mimeheader hs buf @ CRLF])
     @ (case hdrcache ''Subject'' of Some h \<Rightarrow> [''Subject: '' @ h @ CRLF] | None \<Rightarrow> [])
     @ (case hdrcache ''Date'' of
          Some h \<Rightarrow> [''Date: '' @ h @ CRLF]
        | None \<Rightarrow> [''Date: '' @ time_to_rfc5322 hs now @ CRLF])
     @ (case hdrcache ''Message-ID'' of Some h \<Rightarrow> [''Message-ID: '' @ h @ CRLF] | None \<Rightarrow> [])
     @ [''Content-Type: '' @ upload_type hdrcache @ CRLF]
     @ (case data_domain data of
          DOMAIN_BINARY \<Rightarrow> [''Content-Transfer-Encoding: BINARY'' @ CRLF]
        | DOMAIN_8BIT \<Rightarrow> [''Content-Transfer-Encoding: 8BIT'' @ CRLF]
        | DOMAIN_7BIT \<Rightarrow> [])
     @ (case hdrcache ''Content-Disposition'' of
          Some h \<Rightarrow> [''Content-Disposition: '' @ h @ CRLF] | None \<Rightarrow> [])
     @ (case hdrcache ''Content-Description'' of
          Some h \<Rightarrow> [''Content-Description: '' @ h @ CRLF] | None \<Rightarrow> [])
     @ [''Content-Length: '' @ dec (length data mod 2 ^ 32) @ CRLF]
     @ [''MIME-Version: 1.0'' @ CRLF @ CRLF]"

text \<open>
  The label \<^verbatim>\<open>done\<close> of \<^verbatim>\<open>jmap_upload\<close>: remove the stage if there is one, and when the
  mailbox is open abort it if \<open>r\<close> is nonzero, commit it otherwise, and close it.
\<close>

definition upload_done :: "http_result \<Rightarrow> rc \<Rightarrow> bool \<Rightarrow> string option \<Rightarrow> http_result" where
  "upload_done res r stage mailbox =
     res\<lparr>events := events res
            @ (if stage then [Ev_removestage] else [])
            @ (case mailbox of
                 None \<Rightarrow> []
               | Some mb \<Rightarrow>
                   [if r \<noteq> None then Ev_mailbox_abort mb else Ev_mailbox_commit mb,
                    Ev_mailbox_close mb])\<rparr>"

text \<open>The JSON object of the response to a successful upload, built member by member.\<close>

definition upload_response :: "httpd \<Rightarrow> int \<Rightarrow> string \<Rightarrow> message_guid \<Rightarrow> nat \<Rightarrow> string \<Rightarrow> json" where
  "upload_response hs now accountid content_guid datalen type =
     (let datestr = time_to_rfc3339 hs (now + 86400);
          blob_id = jmap_set_blobid content_guid;
          resp = [(''accountId'', JString accountid)];
          resp = json_object_set resp ''blobId'' (JString blob_id);
          resp = json_object_set resp ''size'' (JInteger (int datalen));
          resp = json_object_set resp ''expires'' (JString datestr);
          normalisedtype = charset_decode_mimeheader hs type;
          resp = json_object_set resp ''type'' (JString normalisedtype)
      in JObject resp)"

definition jmap_upload ::
  "backend \<Rightarrow> httpd \<Rightarrow> jmap_settings \<Rightarrow> int \<Rightarrow> upload_txn \<Rightarrow> http_result" where
  "jmap_upload be hs settings now txn =
     (case req_body_r txn of
        Some r \<Rightarrow> result0\<lparr>ret := Some r, conn_close := True\<rparr>
      | None \<Rightarrow>
     let data = payload txn;
         datalen = length data
     in
     if unat (limits settings MAX_SIZE_UPLOAD) < datalen
     then result0\<lparr>ret := Some HTTP_PAYLOAD_TOO_LARGE,
                  error_desc := Some ''JSON upload byte size exceeds maxSizeUpload''\<rparr>
     else
     let accountid = resource txn in
     (case strchr accountid CHR ''/'' of
        None \<Rightarrow> upload_done (result0\<lparr>ret := Some HTTP_NOT_FOUND\<rparr>) None False None
      | Some slash \<Rightarrow>
     if tl slash \<noteq> []
     then upload_done (result0\<lparr>ret := Some HTTP_NOT_FOUND\<rparr>) None False None
     else
     let accountid = take (length accountid - length slash) accountid;
         (cr, ev) = create_upload_collection be hs accountid
     in
     (case cr of
        Inl r \<Rightarrow> upload_done (result0\<lparr>ret := Some HTTP_NOT_FOUND, events := ev\<rparr>) (Some r) False None
      | Inr mailbox \<Rightarrow>
     let ev = ev @ [Ev_newstage mailbox] in
     if \<not> append_newstage be mailbox
     then upload_done (result0\<lparr>ret := Some HTTP_SERVER_ERROR,
                               error_desc := Some ''append_newstage() failed'',
                               events := ev\<rparr>) None False (Some mailbox)
     else
     let hdrs = upload_headers hs now (req_hdrs txn) data;
         type = upload_type (req_hdrs txn);
         res = result0\<lparr>stagefile := Some (hdrs, data)\<rparr>;
         ev = ev @ [Ev_append_setup mailbox]
     in
     (case append_setup_mbox be mailbox of
        Some r \<Rightarrow> upload_done (res\<lparr>ret := Some HTTP_SERVER_ERROR,
                                   error_desc := Some ''append_setup() failed'',
                                   events := ev\<rparr>) (Some r) True (Some mailbox)
      | None \<Rightarrow>
     let ev = ev @ [Ev_append_fromstage mailbox] in
     (case append_fromstage be mailbox (concat hdrs @ data) of
        Inl r \<Rightarrow> upload_done (res\<lparr>ret := Some HTTP_SERVER_ERROR,
                                  error_desc := Some ''append_fromstage() failed'',
                                  events := ev @ [Ev_append_abort]\<rparr>) (Some r) True (Some mailbox)
      | Inr content_guid \<Rightarrow>
     let ev = ev @ [Ev_append_commit] in
     (case append_commit be mailbox of
        Some r \<Rightarrow> upload_done (res\<lparr>ret := Some HTTP_SERVER_ERROR,
                                   error_desc := Some ''append_commit() failed'',
                                   events := ev\<rparr>) (Some r) True (Some mailbox)
      | None \<Rightarrow>
     let resp = upload_response hs now accountid content_guid datalen type in
     upload_done (json_response hs HTTP_CREATED (res\<lparr>events := ev\<rparr>) resp)
       None True (Some mailbox)))))))"


text \<open>
  The shape of a well-formed upload resource, in the words of the endpoint's contract:
  an account id followed by one trailing slash, with nothing after it.
\<close>

definition upload_resource_ok :: "string \<Rightarrow> bool" where
  "upload_resource_ok r \<longleftrightarrow> r \<noteq> [] \<and> last r = CHR ''/'' \<and> CHR ''/'' \<notin> set (butlast r)"


section \<open>The download endpoint\<close>

text \<open>
  The request as \<^verbatim>\<open>jmap_download\<close> sees it: the resource part of the target path, the
  query parameter \<^verbatim>\<open>accept\<close> and the request header \<^verbatim>\<open>Accept\<close>.
\<close>

record download_txn =
  dl_resource :: string
  dl_qparam_accept :: "string option"
  dl_hdr_accept :: "string option"

text \<open>
  \<^verbatim>\<open>parse_accept_header\<close>: the first token of the parsed header, when it names a type and
  a subtype without wildcards.  \<^verbatim>\<open>parse_accept\<close> answers with that token, or with nothing.
\<close>

definition parse_accept_header :: "httpd \<Rightarrow> string \<Rightarrow> string option" where
  "parse_accept_header hs hdr =
     (case parse_accept hs hdr of
        None \<Rightarrow> None
      | Some token \<Rightarrow>
          (case message_parse_type hs token of
             (Some type, Some subtype) \<Rightarrow>
               if strchr type CHR ''*'' = None \<and> strchr subtype CHR ''*'' = None
               then Some token else None
           | _ \<Rightarrow> None))"

text \<open>
  The label \<^verbatim>\<open>done\<close> of \<^verbatim>\<open>jmap_download\<close>: close the mailbox that \<^verbatim>\<open>jmap_findblob\<close> opened,
  if any, and commit the conversations state.
\<close>

definition download_done :: "http_result \<Rightarrow> string option \<Rightarrow> http_result" where
  "download_done res mbox =
     res\<lparr>events := events res
            @ (case mbox of None \<Rightarrow> [] | Some m \<Rightarrow> [Ev_closembox m])
            @ [Ev_conversations_commit]\<rparr>"

definition jmap_download :: "backend \<Rightarrow> httpd \<Rightarrow> download_txn \<Rightarrow> http_result" where
  "jmap_download be hs txn =
     (let userid = dl_resource txn in
      case strchr userid CHR ''/'' of
        None \<Rightarrow> result0\<lparr>ret := Some HTTP_NOT_FOUND\<rparr>
      | Some slash \<Rightarrow>
     let blobbase = tl slash in
     (case strchr blobbase CHR ''/'' of
        None \<Rightarrow> result0\<lparr>ret := Some HTTP_BAD_REQUEST, error_desc := Some ''failed to find blobid''\<rparr>
      | Some slash2 \<Rightarrow>
     let bloblen = length blobbase - length slash2 in
     if deref blobbase \<noteq> CHR ''G''
     then result0\<lparr>ret := Some HTTP_BAD_REQUEST,
                  error_desc := Some ''invalid blobid (doesn't start with G)''\<rparr>
     else if bloblen \<noteq> 41
     then result0\<lparr>ret := Some HTTP_BAD_REQUEST,
                  error_desc := Some ''invalid blobid (not 41 chars)''\<rparr>
     else
     let name = tl slash2;
         accountid = xstrndup userid (length userid - length slash);
         ev = [Ev_conversations_open_user accountid]
     in
     (case conversations_open_user be accountid of
        Some r \<Rightarrow>
          result0\<lparr>ret := Some (if r = IMAP_MAILBOX_BADNAME then HTTP_NOT_FOUND
                                else HTTP_SERVER_ERROR),
                  error_desc := Some (error_message hs r),
                  events := ev\<rparr>
      | None \<Rightarrow>
     let blobid = xstrndup blobbase bloblen;
         ev = ev @ [Ev_findblob None blobid]
     in
     (case jmap_findblob be None blobid of
        Inl r \<Rightarrow>
          download_done (result0\<lparr>ret := Some HTTP_NOT_FOUND,
                                  error_desc := Some ''failed to find blob by id'',
                                  events := ev\<rparr>) None
      | Inr loc \<Rightarrow>
     let (mapped, ev) =
           (case bl_msg_buf loc of
              Some buf \<Rightarrow> (Inr buf, ev)
            | None \<Rightarrow> (msgrecord_get_body be (bl_mr loc), ev @ [Ev_msgrecord_get_body (bl_mr loc)]))
     in
     (case mapped of
        Inl r \<Rightarrow>
          download_done (result0\<lparr>ret := Some HTTP_NOT_FOUND,
                                  error_desc := Some ''failed to map record'',
                                  events := ev\<rparr>) (Some (bl_mbox loc))
      | Inr msg_buf \<Rightarrow>
     let accept_mime = dl_qparam_accept txn;
         accept_mime =
           (if accept_mime = None
            then (case dl_hdr_accept txn of
                    Some hdr \<Rightarrow> parse_accept_header hs hdr
                  | None \<Rightarrow> None)
            else accept_mime);
         accept_mime =
           (case accept_mime of None \<Rightarrow> ''application/octet-stream'' | Some m \<Rightarrow> m);
         base =
           (case bl_part loc of
              None \<Rightarrow> msg_buf
            | Some part \<Rightarrow>
                charset_decode_mimebody hs
                  (take (content_size part) (drop (content_offset part) msg_buf))
                  (charset_enc part mod 256))
     in
     download_done (result0\<lparr>ret := None,
                             resp := Some (HTTP_OK, accept_mime, Some name, base),
                             events := ev\<rparr>) (Some (bl_mbox loc)))))))"


section \<open>The request context\<close>

text \<open>
  The fields of \<^verbatim>\<open>struct jmap_req\<close> that the core methods read and write: the name of
  the method called (the member \<^verbatim>\<open>method\<close>), the target account, the arguments, the
  client-id tag and the array of method responses accumulated so far.
\<close>

record jmap_req =
  req_method :: string
  accountid :: string
  args :: json
  tag :: string
  response :: "json list"


section \<open>Core/echo\<close>

text \<open>
  \<^verbatim>\<open>jmap_core_echo\<close> appends \<^verbatim>\<open>json_pack("[s,O,s]", "Core/echo", req->args, req->tag)\<close> to
  \<^verbatim>\<open>req->response\<close> and returns 0.  \<^verbatim>\<open>json_pack\<close> returns a null pointer when a string
  argument fails the check of the library, and then nothing is appended; the handler
  returns 0 all the same.  The result is the return code and the updated request.
\<close>

definition json_pack_sOs :: "httpd \<Rightarrow> string \<Rightarrow> json \<Rightarrow> string \<Rightarrow> json option" where
  "json_pack_sOs hs name obj t =
     (if utf8_check_string hs t then Some (JArray [JString name, obj, JString t]) else None)"

definition jmap_core_echo :: "httpd \<Rightarrow> jmap_req \<Rightarrow> int \<times> jmap_req" where
  "jmap_core_echo hs req =
     (0, req\<lparr>response :=
              json_array_append_new (response req)
                (json_pack_sOs hs ''Core/echo'' (args req) (tag req))\<rparr>)"


section \<open>Replies\<close>

text \<open>
  Modelled from the spec: \<^verbatim>\<open>jmap_ok\<close> and \<^verbatim>\<open>jmap_error\<close> are declared in the header and defined
  outside this file.  The specification gives a method response as the triple of name,
  payload and client-id, the payload of a reply carrying the account id, and a
  per-method error as  ["error", {type, ...}, client-id].
\<close>

definition jmap_ok :: "jmap_req \<Rightarrow> (string \<times> json) list \<Rightarrow> jmap_req" where
  "jmap_ok req res =
     req\<lparr>response := response req
            @ [JArray [JString (req_method req),
                       JObject (json_object_set res ''accountId'' (JString (accountid req))),
                       JString (tag req)]]\<rparr>"

definition jmap_error :: "jmap_req \<Rightarrow> json \<Rightarrow> jmap_req" where
  "jmap_error req err =
     req\<lparr>response := response req @ [JArray [JString ''error'', err, JString (tag req)]]\<rparr>"


section \<open>Blob/copy\<close>

text \<open>
  \<^verbatim>\<open>struct jmap_copy\<close>.  For Blob/copy the member \<^verbatim>\<open>create\<close> is the array of blob ids to
  copy; the handler reads each element with \<^verbatim>\<open>json_string_value\<close>, so the model keeps the
  strings.
\<close>

record jmap_copy =
  from_account_id :: string
  create :: "string list"
  blob_copy :: bool
  on_success_destroy_original :: bool
  created :: "(string \<times> json) list"
  not_created :: "(string \<times> json) list"

text \<open>
  \<^verbatim>\<open>struct jmap_get\<close>: the requested ids, the wanted properties (a null table when the
  request names none) and the response fields.
\<close>

record jmap_get =
  ids :: "string list"
  props :: "string list option"
  state :: json
  list_out :: "json list"
  not_found :: "json list"

text \<open>
  The parsers of the method arguments are defined outside this file; what they answer
  for a request is a parameter: the error object, or the parsed arguments.
\<close>

record jmap_api =
  jmap_copy_parse :: "jmap_req \<Rightarrow> json + jmap_copy"
  jmap_get_parse :: "jmap_req \<Rightarrow> json + jmap_get"


definition jmap_get_reply :: "jmap_get \<Rightarrow> (string \<times> json) list" where
  "jmap_get_reply get =
     [(''state'', state get),
      (''list'', JArray (list_out get)),
      (''notFound'', JArray (not_found get))]"

text \<open>
  The label \<^verbatim>\<open>done\<close> of \<^verbatim>\<open>jmap_copyblob\<close>: remove the stage if there is one and close the
  source mailbox.
\<close>

definition copyblob_done :: "rc \<Rightarrow> event list \<Rightarrow> bool \<Rightarrow> blobloc \<Rightarrow> rc \<times> event list" where
  "copyblob_done r ev stage loc =
     (r, ev @ (if stage then [Ev_removestage] else []) @ [Ev_closembox (bl_mbox loc)])"

definition jmap_copyblob :: "backend \<Rightarrow> string \<Rightarrow> string \<Rightarrow> string \<Rightarrow> rc \<times> event list" where
  "jmap_copyblob be blobid from_accountid to_mbox =
     (let ev = [Ev_findblob (Some from_accountid) blobid] in
      case jmap_findblob be (Some from_accountid) blobid of
        Inl r \<Rightarrow> (Some r, ev)
      | Inr loc \<Rightarrow>
     let part = (case bl_part loc of None \<Rightarrow> bl_body loc | Some p \<Rightarrow> p);
         (mapped, ev) =
           (case bl_msg_buf loc of
              Some buf \<Rightarrow> (Inr buf, ev)
            | None \<Rightarrow> (msgrecord_get_body be (bl_mr loc), ev @ [Ev_msgrecord_get_body (bl_mr loc)]))
     in
     (case mapped of
        Inl r \<Rightarrow> copyblob_done (Some r) ev False loc
      | Inr msg_buf \<Rightarrow>
     let ev = ev @ [Ev_newstage to_mbox] in
     if \<not> append_newstage be to_mbox then copyblob_done (Some IMAP_INTERNAL) ev False loc
     else
     let content = take (header_size part + content_size part) (drop (header_offset part) msg_buf) in
     if stage_ferror be to_mbox then copyblob_done (Some IMAP_IOERROR) ev True loc
     else
     let ev = ev @ [Ev_append_setup to_mbox] in
     (case append_setup_mbox be to_mbox of
        Some r \<Rightarrow> copyblob_done (Some r) ev True loc
      | None \<Rightarrow>
     let ev = ev @ [Ev_append_fromstage to_mbox] in
     (case append_fromstage be to_mbox content of
        Inl r \<Rightarrow> copyblob_done (Some r) (ev @ [Ev_append_abort]) True loc
      | Inr to_body \<Rightarrow>
     copyblob_done (append_commit be to_mbox) (ev @ [Ev_append_commit]) True loc))))"

text \<open>
  The loop of \<^verbatim>\<open>jmap_blob_copy\<close> over the ids to copy.  It stops with the code of the
  first copy that fails with anything but \<open>IMAP_NOTFOUND\<close> or \<open>IMAP_PERMISSION_DENIED\<close>.
\<close>

fun blob_copy_loop ::
  "backend \<Rightarrow> httpd \<Rightarrow> string \<Rightarrow> string list \<Rightarrow> jmap_copy \<Rightarrow> event list
     \<Rightarrow> rc \<times> jmap_copy \<times> event list" where
  "blob_copy_loop be hs to_mbox [] copy ev = (None, copy, ev)"
| "blob_copy_loop be hs to_mbox (blobid # rest) copy ev =
     (let (r, ev') = jmap_copyblob be blobid (from_account_id copy) to_mbox;
          ev = ev @ ev'
      in
      if r = Some IMAP_NOTFOUND \<or> r = Some IMAP_PERMISSION_DENIED
      then blob_copy_loop be hs to_mbox rest
             (copy\<lparr>not_created :=
                     json_object_set_new hs (not_created copy) blobid
                       (Some (JObject [(''type'', JString ''blobNotFound'')]))\<rparr>) ev
      else if r \<noteq> None then (r, copy, ev)
      else blob_copy_loop be hs to_mbox rest
             (copy\<lparr>created :=
                     json_object_set_new hs (created copy) blobid (json_string hs blobid)\<rparr>) ev)"



section \<open>Blob/get\<close>

record getblob_rec =
  gb_blob_id :: string
  gb_uid :: "32 word"
  gb_part :: "string option"

text \<open>The macro \<^verbatim>\<open>jmap_wantprop\<close>: every property is wanted when the table is null.\<close>

definition jmap_wantprop :: "string list option \<Rightarrow> string \<Rightarrow> bool" where
  "jmap_wantprop ps name = (case ps of None \<Rightarrow> True | Some t \<Rightarrow> name \<in> set t)"

text \<open>
  Modelled from the spec: \<^verbatim>\<open>jmap_hasrights\<close> is declared in the header and defined outside
  this file.  The specification gives it as  (rights(entry) & mask) == mask,  the rights of an
  entry being those of the authenticated user on that mailbox.
\<close>

definition jmap_hasrights :: "backend \<Rightarrow> mbentry \<Rightarrow> acl_right set \<Rightarrow> bool" where
  "jmap_hasrights be mbentry rights = (rights \<subseteq> jmap_myrights be mbentry)"

text \<open>
  The table \<^verbatim>\<open>getblobs_by_mboxid\<close>, from mailbox id to the array of lookups in that mailbox.
  \<^verbatim>\<open>getblob_cb\<close> appends one lookup to the array of the record's mailbox, making the array
  first when the table has none.  The table is kept in the order of insertion; the order
  in which the C hash table hands out its keys is the parameter \<open>hash_iter_order\<close>.
\<close>

fun getblobs_append ::
  "(string \<times> getblob_rec list) list \<Rightarrow> string \<Rightarrow> getblob_rec \<Rightarrow> (string \<times> getblob_rec list) list" where
  "getblobs_append [] k g = [(k, [g])]"
| "getblobs_append ((k', gs) # t) k g =
     (if k' = k then (k', gs @ [g]) # t else (k', gs) # getblobs_append t k g)"

definition getblob_cb ::
  "string \<Rightarrow> (string \<times> getblob_rec list) list \<Rightarrow> guidrec \<Rightarrow> (string \<times> getblob_rec list) list" where
  "getblob_cb blob_id tab rec =
     getblobs_append tab (gr_mboxid rec)
       \<lparr>gb_blob_id = blob_id, gb_uid = gr_uid rec, gb_part = gr_part rec\<rparr>"

text \<open>
  The first loop of \<^verbatim>\<open>jmap_blob_get\<close>: for each requested id that starts with the sentinel,
  look the rest of the id up in the conversations database and queue one lookup per
  record found.  The callback returns 0, so every record is visited.
\<close>

fun blob_get_lookup ::
  "backend \<Rightarrow> string list \<Rightarrow> (string \<times> getblob_rec list) list \<Rightarrow> event list
     \<Rightarrow> (string \<times> getblob_rec list) list \<times> event list" where
  "blob_get_lookup be [] tab ev = (tab, ev)"
| "blob_get_lookup be (blob_id # rest) tab ev =
     (if deref blob_id = CHR ''G''
      then
        let (recs, r) = conversations_guid_foreach be (tl blob_id) in
        blob_get_lookup be rest (fold (\<lambda>rec t. getblob_cb blob_id t rec) recs tab)
          (ev @ [Ev_guid_foreach (tl blob_id) blob_id])
      else blob_get_lookup be rest tab ev)"

text \<open>Reading one message record: find it, then its GUID, then its conversation id.\<close>

definition blob_get_read :: "backend \<Rightarrow> string \<Rightarrow> 32 word \<Rightarrow> code + (message_guid \<times> 64 word)" where
  "blob_get_read be mbox uid =
     (case msgrecord_find be mbox uid of
        Inl r \<Rightarrow> Inl r
      | Inr mr \<Rightarrow>
          (case msgrecord_get_guid be mr of
             Inl r \<Rightarrow> Inl r
           | Inr guid \<Rightarrow>
               (case msgrecord_get_cid be mr of
                  Inl r \<Rightarrow> Inl r
                | Inr cid \<Rightarrow> Inr (guid, cid))))"

text \<open>
  Adding one id to a member of the blob entry: the member object is made first when the
  entry has none, then the id is set to true in it.
\<close>

definition blob_add_id ::
  "httpd \<Rightarrow> (string \<times> json) list \<Rightarrow> string \<Rightarrow> string \<Rightarrow> (string \<times> json) list" where
  "blob_add_id hs jblob name key =
     (let sub = (case json_object_get jblob name of Some (JObject m) \<Rightarrow> m | _ \<Rightarrow> [])
      in json_object_set jblob name (JObject (json_object_set_new hs sub key (Some JTrue))))"

text \<open>
  Reporting one record in the object \<^verbatim>\<open>found\<close>, keyed by blob id.  The mailbox was opened
  through the entry with this unique id, which is the id written to \<^verbatim>\<open>mailboxIds\<close>.
  When the entry is new and its key fails the check of the library, nothing is stored
  under that key (the C code then goes on to write to the entry it has just released;
  a blob id decoded from the request never fails the check).
\<close>

definition blob_get_report ::
  "httpd \<Rightarrow> string list option \<Rightarrow> string \<Rightarrow> (string \<times> json) list \<Rightarrow> getblob_rec
     \<Rightarrow> message_guid \<Rightarrow> 64 word \<Rightarrow> (string \<times> json) list" where
  "blob_get_report hs ps uniqueid found getblob guid cid =
     (let jblob = (case json_object_get found (gb_blob_id getblob) of
                     Some (JObject m) \<Rightarrow> m | _ \<Rightarrow> []);
          jblob = (if jmap_wantprop ps ''mailboxIds''
                   then blob_add_id hs jblob ''mailboxIds'' uniqueid else jblob);
          jblob = (if jmap_wantprop ps ''emailIds''
                   then blob_add_id hs jblob ''emailIds'' (jmap_set_emailid hs guid) else jblob);
          jblob = (if jmap_wantprop ps ''threadIds''
                   then blob_add_id hs jblob ''threadIds'' (jmap_set_threadid hs cid) else jblob)
      in json_object_set_new hs found (gb_blob_id getblob) (Some (JObject jblob)))"

text \<open>The inner loop over the lookups queued for one open mailbox.\<close>

fun blob_get_records ::
  "backend \<Rightarrow> httpd \<Rightarrow> string list option \<Rightarrow> string \<Rightarrow> string \<Rightarrow> getblob_rec list
     \<Rightarrow> (string \<times> json) list \<Rightarrow> event list \<Rightarrow> (string \<times> json) list \<times> event list" where
  "blob_get_records be hs ps mbox uniqueid [] found ev = (found, ev)"
| "blob_get_records be hs ps mbox uniqueid (getblob # rest) found ev =
     (let ev = ev @ [Ev_msgrecord_find mbox (gb_uid getblob)] in
      case blob_get_read be mbox (gb_uid getblob) of
        Inl r \<Rightarrow> blob_get_records be hs ps mbox uniqueid rest found ev
      | Inr (guid, cid) \<Rightarrow>
          blob_get_records be hs ps mbox uniqueid rest
            (blob_get_report hs ps uniqueid found getblob guid cid) ev)"

text \<open>One round of the second loop: the mailbox with the given id and its lookups.\<close>

definition blob_get_mailbox ::
  "backend \<Rightarrow> httpd \<Rightarrow> string list option \<Rightarrow> string \<Rightarrow> getblob_rec list
     \<Rightarrow> (string \<times> json) list \<Rightarrow> event list \<Rightarrow> (string \<times> json) list \<times> event list" where
  "blob_get_mailbox be hs ps mboxid getblobs found ev =
     (let ev = ev @ [Ev_mbentry_by_uniqueid mboxid] in
      case jmap_mbentry_by_uniqueid be mboxid of
        None \<Rightarrow> (found, ev)
      | Some mbentry \<Rightarrow>
          if \<not> jmap_hasrights be mbentry {ACL_READ, ACL_LOOKUP} then (found, ev)
          else
            let ev = ev @ [Ev_openmbox (mbe_name mbentry)] in
            (case jmap_openmbox be (mbe_name mbentry) of
               Some r \<Rightarrow> (found, ev)
             | None \<Rightarrow>
                 let (found, ev) =
                       blob_get_records be hs ps (mbe_name mbentry) mboxid getblobs found ev
                 in (found, ev @ [Ev_closembox (mbe_name mbentry)])))"

text \<open>The second loop, over the keys of the table in the order the hash table gives them.\<close>

fun blob_get_mailboxes ::
  "backend \<Rightarrow> httpd \<Rightarrow> string list option \<Rightarrow> (string \<times> getblob_rec list) list \<Rightarrow> string list
     \<Rightarrow> (string \<times> json) list \<Rightarrow> event list \<Rightarrow> (string \<times> json) list \<times> event list" where
  "blob_get_mailboxes be hs ps tab [] found ev = (found, ev)"
| "blob_get_mailboxes be hs ps tab (mboxid # rest) found ev =
     (case map_of tab mboxid of
        None \<Rightarrow> blob_get_mailboxes be hs ps tab rest found ev
      | Some getblobs \<Rightarrow>
          let (found, ev) = blob_get_mailbox be hs ps mboxid getblobs found ev
          in blob_get_mailboxes be hs ps tab rest found ev)"

text \<open>The object \<^verbatim>\<open>found\<close> after both loops, with the trace of calls into the store.\<close>

definition blob_get_found ::
  "backend \<Rightarrow> httpd \<Rightarrow> jmap_get \<Rightarrow> (string \<times> json) list \<times> event list" where
  "blob_get_found be hs get =
     (let (tab, ev) = blob_get_lookup be (ids get) [] []
      in blob_get_mailboxes be hs (props get) tab (hash_iter_order be (map fst tab)) [] ev)"

text \<open>
  Reporting: every entry of \<^verbatim>\<open>found\<close> goes to the list, every requested id that is not a
  key of \<^verbatim>\<open>found\<close> goes to the array of ids not found.
\<close>

definition blob_get_fill :: "httpd \<Rightarrow> (string \<times> json) list \<Rightarrow> jmap_get \<Rightarrow> jmap_get" where
  "blob_get_fill hs found get =
     (let get = get\<lparr>list_out := list_out get @ map snd found\<rparr>
      in get\<lparr>not_found :=
               fold (\<lambda>blob_id arr.
                       if json_object_get found blob_id = None
                       then json_array_append_new arr (json_string hs blob_id)
                       else arr)
                 (ids get) (not_found get)\<rparr>)"

definition jmap_blob_get ::
  "jmap_api \<Rightarrow> backend \<Rightarrow> httpd \<Rightarrow> jmap_req \<Rightarrow> rc \<times> jmap_req \<times> event list" where
  "jmap_blob_get api be hs req =
     (case jmap_get_parse api req of
        Inl err \<Rightarrow> (None, jmap_error req err, [])
      | Inr get \<Rightarrow>
          let (found, ev) = blob_get_found be hs get;
              get = blob_get_fill hs found get
          in (None, jmap_ok req (jmap_get_reply get), ev))"

text \<open>
  A requested id resolves to a stored blob when it starts with the sentinel and the
  conversations database holds a record for the rest of the id whose mailbox can be
  looked up, read and opened, and whose message record can be read there.
\<close>

definition mailbox_readable :: "backend \<Rightarrow> string \<Rightarrow> bool" where
  "mailbox_readable be mboxid =
     (case jmap_mbentry_by_uniqueid be mboxid of
        None \<Rightarrow> False
      | Some mbentry \<Rightarrow>
          jmap_hasrights be mbentry {ACL_READ, ACL_LOOKUP}
          \<and> jmap_openmbox be (mbe_name mbentry) = None)"

definition record_readable :: "backend \<Rightarrow> string \<Rightarrow> 32 word \<Rightarrow> bool" where
  "record_readable be mboxid uid =
     (case jmap_mbentry_by_uniqueid be mboxid of
        None \<Rightarrow> False
      | Some mbentry \<Rightarrow> \<not> isl (blob_get_read be (mbe_name mbentry) uid))"

definition blob_resolves :: "backend \<Rightarrow> string \<Rightarrow> bool" where
  "blob_resolves be blob_id =
     (deref blob_id = CHR ''G'' \<and>
      list_ex (\<lambda>rec. mailbox_readable be (gr_mboxid rec)
                     \<and> record_readable be (gr_mboxid rec) (gr_uid rec))
        (fst (conversations_guid_foreach be (tl blob_id))))"

text \<open>The lookups queued in the table, each with the id of its mailbox.\<close>

definition queued :: "(string \<times> getblob_rec list) list \<Rightarrow> (string \<times> getblob_rec) set" where
  "queued tab = {(k, g). \<exists>gs. (k, gs) \<in> set tab \<and> g \<in> set gs}"

text \<open>The events that record a lookup in the conversations database.\<close>

fun is_guid_lookup :: "event \<Rightarrow> bool" where
  "is_guid_lookup (Ev_guid_foreach g b) = True"
| "is_guid_lookup _ = False"


section \<open>A small store\<close>

text \<open>
  A concrete instance of the collaborators, on which the theorems below are run: one
  user \<open>alice\<close> with an upload collection, and one stored blob whose content digest is
  twenty bytes \<open>0xAB\<close>.  The check of the JSON library is taken on its ASCII part: this
  instance accepts the strings without a byte above 127.
\<close>

definition ex_guid :: message_guid where
  "ex_guid = replicate 20 (CHR 0xAB)"

definition ex_blobid :: string where
  "ex_blobid = ''Gabababababababababababababababababababab''"

definition ex_backend :: backend where
  "ex_backend =
     \<lparr>mbname_from_userid = (\<lambda>u. \<lparr>mbn_localpart = Some u, mbn_domain = None, mbn_boxes = []\<rparr>),
      mbname_intname =
        (\<lambda>m. ''user.'' @ (case mbn_localpart m of Some l \<Rightarrow> l | None \<Rightarrow> [])
                @ concat (map (\<lambda>b. CHR ''.'' # b) (mbn_boxes m))),
      mboxname_user_mbox = (\<lambda>u. ''user.'' @ u),
      http_mlookup =
        (\<lambda>n. if n = ''user.alice.#jmap'' \<or> n = ''user.alice''
              then Inr \<lparr>mbe_name = n, mbe_server = None\<rparr>
              else Inl IMAP_MAILBOX_NONEXISTENT),
      httpd_myrights = (\<lambda>_. {ACL_LOOKUP, ACL_READ, ACL_INSERT, ACL_CREATE}),
      mboxlist_createmailbox = (\<lambda>_. None),
      mailbox_open_iwl = (\<lambda>_. None),
      append_newstage = (\<lambda>_. True),
      append_setup_mbox = (\<lambda>_. None),
      append_fromstage = (\<lambda>_ _. Inr ex_guid),
      append_commit = (\<lambda>_. None),
      stage_ferror = (\<lambda>_. False),
      conversations_open_user = (\<lambda>_. None),
      jmap_findblob =
        (\<lambda>_ blobid.
           if blobid = ex_blobid
           then Inr \<lparr>bl_mbox = ''user.alice'', bl_mr = 1,
                     bl_body = \<lparr>header_offset = 0, header_size = 0, content_offset = 0,
                                content_size = 5, charset_enc = 0\<rparr>,
                     bl_part = None, bl_msg_buf = None\<rparr>
           else Inl IMAP_NOTFOUND),
      msgrecord_get_body = (\<lambda>_. Inr ''hello''),
      conversations_guid_foreach =
        (\<lambda>g. if g = tl ex_blobid
              then ([\<lparr>gr_mboxid = ''mbox-1'', gr_uid = 7, gr_part = None\<rparr>], None)
              else ([], None)),
      hash_iter_order = (\<lambda>ks. ks),
      jmap_mbentry_by_uniqueid =
        (\<lambda>i. if i = ''mbox-1'' then Some \<lparr>mbe_name = ''user.alice'', mbe_server = None\<rparr>
              else None),
      jmap_myrights = (\<lambda>_. {ACL_LOOKUP, ACL_READ}),
      jmap_openmbox = (\<lambda>_. None),
      msgrecord_find = (\<lambda>_ _. Inr 1),
      msgrecord_get_guid = (\<lambda>_. Inr ex_guid),
      msgrecord_get_cid = (\<lambda>_. Inr 5)\<rparr>"

definition ex_httpd :: httpd where
  "ex_httpd =
     \<lparr>httpd_userid = ''alice'',
      config_servername = ''example.org'',
      httpd_extradomain = None,
      jmapuploadfolder = ''#jmap'',
      charset_encode_mimeheader = (\<lambda>s. s),
      charset_decode_mimeheader = (\<lambda>s. s),
      charset_decode_mimebody = (\<lambda>s _. s),
      time_to_rfc5322 = (\<lambda>t. dec (nat t)),
      time_to_rfc3339 = (\<lambda>t. dec (nat t)),
      json_dumps = (\<lambda>_. Some ''{}''),
      parse_accept = (\<lambda>h. Some h),
      message_parse_type = (\<lambda>_. (Some ''text'', Some ''plain'')),
      jmap_set_emailid = (\<lambda>_. ''M1''),
      jmap_set_threadid = (\<lambda>_. ''T1''),
      error_message = (\<lambda>_. ''error''),
      utf8_check_string = (\<lambda>s. list_all (\<lambda>c. \<not> digit7 c) s)\<rparr>"

text \<open>A configuration that allows uploads of one kilobyte, and one that sets no limit.\<close>

definition ex_config :: "imapopt \<Rightarrow> 32 word" where
  "ex_config k = 1"


fun ex_optname :: "imapopt \<Rightarrow> string" where
  "ex_optname IMAPOPT_JMAP_MAX_SIZE_UPLOAD = ''jmap_max_size_upload''"
| "ex_optname IMAPOPT_JMAP_MAX_CONCURRENT_UPLOAD = ''jmap_max_concurrent_upload''"
| "ex_optname IMAPOPT_JMAP_MAX_SIZE_REQUEST = ''jmap_max_size_request''"
| "ex_optname IMAPOPT_JMAP_MAX_CONCURRENT_REQUESTS = ''jmap_max_concurrent_requests''"
| "ex_optname IMAPOPT_JMAP_MAX_CALLS_IN_REQUEST = ''jmap_max_calls_in_request''"
| "ex_optname IMAPOPT_JMAP_MAX_OBJECTS_IN_GET = ''jmap_max_objects_in_get''"
| "ex_optname IMAPOPT_JMAP_MAX_OBJECTS_IN_SET = ''jmap_max_objects_in_set''"



definition ex_settings :: jmap_settings where
  "ex_settings = fst (jmap_core_init ex_optname ex_config my_jmap_settings)"

definition ex_upload :: upload_txn where
  "ex_upload =
     \<lparr>req_body_r = None, payload = ''hello'', resource = ''alice/'', req_hdrs = Map.empty\<rparr>"

definition ex_req :: jmap_req where
  "ex_req = \<lparr>req_method = ''Blob/get'', accountid = ''alice'', args = JObject [], tag = ''c0'',
             response = []\<rparr>"



section \<open>Properties\<close>

subsection \<open>Core/echo\<close>

text \<open>
  Claim C7.  For every argument object and every client-id tag that the JSON library
  accepts as a string (as every tag decoded from a request is), Core/echo appends
  exactly one response entry  ["Core/echo", args, tag]  to the responses accumulated so
  far: the payload is the request's arguments unchanged, the tag is echoed verbatim,
  the handler returns 0 and leaves every other field of the request as it was.
\<close>

theorem jmap_core_echo_identity:
  assumes "utf8_check_string hs (tag req)"
  shows "fst (jmap_core_echo hs req) = 0
   \<and> response (snd (jmap_core_echo hs req)) =
       response req @ [JArray [JString ''Core/echo'', args req, JString (tag req)]]
   \<and> length (response (snd (jmap_core_echo hs req))) = Suc (length (response req))
   \<and> args (snd (jmap_core_echo hs req)) = args req
   \<and> tag (snd (jmap_core_echo hs req)) = tag req
   \<and> req_method (snd (jmap_core_echo hs req)) = req_method req
   \<and> accountid (snd (jmap_core_echo hs req)) = accountid req"
  using assms
  by (simp add: jmap_core_echo_def json_pack_sOs_def json_array_append_new_def)

theorem jmap_core_echo_identity_witness:
  "utf8_check_string ex_httpd (tag (ex_req\<lparr>args := JObject [(''hello'', JInteger 1)]\<rparr>))
   \<and> fst (jmap_core_echo ex_httpd (ex_req\<lparr>args := JObject [(''hello'', JInteger 1)]\<rparr>)) = 0
   \<and> response (snd (jmap_core_echo ex_httpd (ex_req\<lparr>args := JObject [(''hello'', JInteger 1)]\<rparr>))) =
        [JArray [JString ''Core/echo'', JObject [(''hello'', JInteger 1)], JString ''c0'']]"
  using jmap_core_echo_identity [of ex_httpd "ex_req\<lparr>args := JObject [(''hello'', JInteger 1)]\<rparr>"]
  by (simp add: ex_httpd_def ex_req_def)

lemma jmap_core_echo_rejected_tag:
  "\<not> utf8_check_string hs (tag req) \<Longrightarrow> jmap_core_echo hs req = (0, req)"
  by (simp add: jmap_core_echo_def json_pack_sOs_def json_array_append_new_def)

subsection \<open>Limits\<close>

lemma read_opt_value:
  "fst (read_opt optname cfg k) = (if sint (cfg k) \<le> 0 then 0 else scast (cfg k))"
  by (simp add: read_opt_def word_sle_eq sint_up_scast is_up)


lemma sint_scast_kb:
  fixes v :: "32 word"
  assumes "0 < sint v"
  shows "sint ((scast v :: 64 word) * 1024) = sint v * 1024"
proof -
  have lt: "sint v < 2 ^ 31" using sint_lt [of v] by simp
  have "sint ((scast v :: 64 word) * 1024) =
          signed_take_bit 63 (sint (scast v :: 64 word) * sint (1024 :: 64 word))"
    by (simp add: sint_word_ariths)
  also have "sint (scast v :: 64 word) = sint v" by (simp add: sint_up_scast is_up)
  also have "sint (1024 :: 64 word) = 1024" by simp
  also have "signed_take_bit 63 (sint v * 1024) = sint v * 1024"
    using assms lt by (intro signed_take_bit_int_eq_self) auto
  finally show ?thesis .
qed

lemma upload_limit_value:
  "sint (limits (fst (jmap_core_init optname cfg s0)) MAX_SIZE_UPLOAD) =
     (if sint (cfg IMAPOPT_JMAP_MAX_SIZE_UPLOAD) \<le> 0 then 0
      else sint (cfg IMAPOPT_JMAP_MAX_SIZE_UPLOAD) * 1024)"
  by (simp add: jmap_core_init_def Let_def split_beta read_opt_value sint_scast_kb)

lemma unat_of_nonneg_sint:
  fixes w :: "64 word"
  assumes "0 \<le> sint w"
  shows "int (unat w) = sint w"
proof -
  have "sint w < 2 ^ 64" using sint_lt [of w] by simp
  then have "take_bit 64 (sint w) = sint w"
    using assms by (simp add: take_bit_int_eq_self)
  then show ?thesis by (simp add: uint_sint)
qed

lemma upload_limit_unat:
  "int (unat (limits (fst (jmap_core_init optname cfg s0)) MAX_SIZE_UPLOAD)) =
     sint (limits (fst (jmap_core_init optname cfg s0)) MAX_SIZE_UPLOAD)"
  by (rule unat_of_nonneg_sint) (simp add: upload_limit_value)

lemma ex_settings_limit: "unat (limits ex_settings MAX_SIZE_UPLOAD) = 1024"
proof -
  have "int (unat (limits ex_settings MAX_SIZE_UPLOAD)) = 1024"
    unfolding ex_settings_def upload_limit_unat upload_limit_value
    by (simp add: ex_config_def)
  then show ?thesis by linarith
qed

subsection \<open>Strings\<close>

lemma strchr_None_iff: "strchr s c = None \<longleftrightarrow> c \<notin> set s"
  by (induction s) auto

lemma strchr_split:
  "strchr s c = Some t \<Longrightarrow> s = takeWhile (\<lambda>x. x \<noteq> c) s @ t \<and> t \<noteq> [] \<and> hd t = c"
  by (induction s) (auto split: if_splits)


lemma strchr_append:
  "c \<notin> set a \<Longrightarrow> strchr (a @ c # t) c = Some (c # t)"
  by (induction a) auto

lemma takeWhile_not_mem: "c \<notin> set (takeWhile (\<lambda>x. x \<noteq> c) s)"
  by (induction s) auto

subsection \<open>Upload\<close>

lemma jmap_upload_read_failed:
  "req_body_r txn = Some r \<Longrightarrow>
     jmap_upload be hs settings now txn = result0\<lparr>ret := Some r, conn_close := True\<rparr>"
  by (simp add: jmap_upload_def)

lemma jmap_upload_over_limit:
  assumes "req_body_r txn = None"
      and "unat (limits settings MAX_SIZE_UPLOAD) < length (payload txn)"
  shows "jmap_upload be hs settings now txn =
           result0\<lparr>ret := Some HTTP_PAYLOAD_TOO_LARGE,
                  error_desc := Some ''JSON upload byte size exceeds maxSizeUpload''\<rparr>"
  using assms by (simp add: jmap_upload_def Let_def)

text \<open>
  Claim C5.  When the body of an upload request has been read and its length exceeds
  the effective limit maxSizeUpload (the limit that \<^verbatim>\<open>jmap_core_init\<close> stored), the request
  is answered with 413 Payload Too Large and the handler has made no call into the
  store: the upload collection is not opened, nothing is staged and no response body
  is written.
\<close>

theorem jmap_upload_too_large:
  assumes "req_body_r txn = None"
      and "settings = fst (jmap_core_init optname config_getint s0)"
      and "sint (limits settings MAX_SIZE_UPLOAD) < int (length (payload txn))"
  shows "ret (jmap_upload be hs settings now txn) = Some HTTP_PAYLOAD_TOO_LARGE
     \<and> events (jmap_upload be hs settings now txn) = []
     \<and> stagefile (jmap_upload be hs settings now txn) = None
     \<and> resp (jmap_upload be hs settings now txn) = None"
proof -
  have "int (unat (limits settings MAX_SIZE_UPLOAD)) = sint (limits settings MAX_SIZE_UPLOAD)"
    unfolding assms(2) by (rule upload_limit_unat)
  with assms(3) have "unat (limits settings MAX_SIZE_UPLOAD) < length (payload txn)"
    by linarith
  from jmap_upload_over_limit [OF assms(1) this] show ?thesis
    by (simp add: result0_def)
qed

theorem jmap_upload_too_large_witness:
  "req_body_r (ex_upload\<lparr>payload := replicate 2000 (CHR ''a'')\<rparr>) = None
   \<and> ex_settings = fst (jmap_core_init ex_optname ex_config my_jmap_settings)
   \<and> sint (limits ex_settings MAX_SIZE_UPLOAD)
       < int (length (payload (ex_upload\<lparr>payload := replicate 2000 (CHR ''a'')\<rparr>)))
   \<and> ret (jmap_upload ex_backend ex_httpd ex_settings 0
            (ex_upload\<lparr>payload := replicate 2000 (CHR ''a'')\<rparr>)) = Some HTTP_PAYLOAD_TOO_LARGE
   \<and> events (jmap_upload ex_backend ex_httpd ex_settings 0
            (ex_upload\<lparr>payload := replicate 2000 (CHR ''a'')\<rparr>)) = []"
  using jmap_upload_too_large [of "ex_upload\<lparr>payload := replicate 2000 (CHR ''a'')\<rparr>"
          ex_settings ex_optname ex_config my_jmap_settings ex_backend ex_httpd 0]
  by (simp add: ex_upload_def ex_settings_def upload_limit_value ex_config_def)






subsection \<open>The transfer encoding of the staged message\<close>

lemma data_domain_loop_binary:
  "r \<noteq> DOMAIN_BINARY \<Longrightarrow> data_domain_loop r p = DOMAIN_BINARY \<longleftrightarrow> CHR 0x00 \<in> set p"
  by (induction p arbitrary: r) simp_all

lemma data_domain_loop_8bit:
  "r \<noteq> DOMAIN_BINARY \<Longrightarrow> data_domain_loop r p = DOMAIN_8BIT \<longleftrightarrow>
     CHR 0x00 \<notin> set p \<and> ((\<exists>c \<in> set p. high_bit c) \<or> r = DOMAIN_8BIT)"
  by (induction p arbitrary: r) auto

lemma data_domain_loop_7bit:
  "data_domain_loop r p = DOMAIN_7BIT \<longleftrightarrow>
     CHR 0x00 \<notin> set p \<and> (\<forall>c \<in> set p. \<not> high_bit c) \<and> r = DOMAIN_7BIT"
  by (induction p arbitrary: r) auto

lemma data_domain_binary: "data_domain p = DOMAIN_BINARY \<longleftrightarrow> CHR 0x00 \<in> set p"
  by (simp add: data_domain_def data_domain_loop_binary)

lemma data_domain_8bit:
  "data_domain p = DOMAIN_8BIT \<longleftrightarrow> CHR 0x00 \<notin> set p \<and> (\<exists>c \<in> set p. high_bit c)"
  by (simp add: data_domain_def data_domain_loop_8bit)

lemma data_domain_7bit:
  "data_domain p = DOMAIN_7BIT \<longleftrightarrow> CHR 0x00 \<notin> set p \<and> (\<forall>c \<in> set p. \<not> high_bit c)"
  by (simp add: data_domain_def data_domain_loop_7bit)

lemma jmap_upload_stagefile_cases:
  "stagefile (jmap_upload be hs settings now txn) = None
   \<or> stagefile (jmap_upload be hs settings now txn) =
        Some (upload_headers hs now (req_hdrs txn) (payload txn), payload txn)"
  by (simp add: jmap_upload_def Let_def upload_done_def json_response_def result0_def
           split: option.split sum.split prod.split)

lemma jmap_upload_stagefile:
  assumes "stagefile (jmap_upload be hs settings now txn) = Some (hdrs, data)"
  shows "hdrs = upload_headers hs now (req_hdrs txn) (payload txn) \<and> data = payload txn"
  using assms jmap_upload_stagefile_cases [of be hs settings now txn] by auto

lemma bex_set_case_option:
  "(\<exists>y \<in> set (case x of None \<Rightarrow> a | Some h \<Rightarrow> b h). P y)
     \<longleftrightarrow> (x = None \<and> (\<exists>y \<in> set a. P y)) \<or> (\<exists>h. x = Some h \<and> (\<exists>y \<in> set (b h). P y))"
  by (cases x) auto

lemma bex_set_case_domain:
  "(\<exists>y \<in> set (case d of DOMAIN_7BIT \<Rightarrow> a | DOMAIN_8BIT \<Rightarrow> b | DOMAIN_BINARY \<Rightarrow> c). P y)
     \<longleftrightarrow> (d = DOMAIN_7BIT \<and> (\<exists>y \<in> set a. P y)) \<or> (d = DOMAIN_8BIT \<and> (\<exists>y \<in> set b. P y))
          \<or> (d = DOMAIN_BINARY \<and> (\<exists>y \<in> set c. P y))"
  by (cases d) auto

lemma upload_headers_bex:
  "(\<exists>h \<in> set (upload_headers hs now hdrcache data). P h) \<longleftrightarrow>
       (\<exists>v. hdrcache ''User-Agent'' = Some v \<and> P (''User-Agent: '' @ v @ CRLF))
   \<or> (hdrcache ''From'' = None \<and>
        P (''From: '' @ charset_encode_mimeheader hs
             (if strchr (httpd_userid hs) CHR ''@'' \<noteq> None
              then ''<'' @ httpd_userid hs @ ''>''
              else ''<'' @ httpd_userid hs @ ''@'' @ config_servername hs @ ''>'') @ CRLF))
   \<or> (\<exists>v. hdrcache ''From'' = Some v \<and> P (''From: '' @ v @ CRLF))
   \<or> (\<exists>v. hdrcache ''Subject'' = Some v \<and> P (''Subject: '' @ v @ CRLF))
   \<or> (hdrcache ''Date'' = None \<and> P (''Date: '' @ time_to_rfc5322 hs now @ CRLF))
   \<or> (\<exists>v. hdrcache ''Date'' = Some v \<and> P (''Date: '' @ v @ CRLF))
   \<or> (\<exists>v. hdrcache ''Message-ID'' = Some v \<and> P (''Message-ID: '' @ v @ CRLF))
   \<or> P (''Content-Type: '' @ upload_type hdrcache @ CRLF)
   \<or> (data_domain data = DOMAIN_8BIT \<and> P (''Content-Transfer-Encoding: 8BIT'' @ CRLF))
   \<or> (data_domain data = DOMAIN_BINARY \<and> P (''Content-Transfer-Encoding: BINARY'' @ CRLF))
   \<or> (\<exists>v. hdrcache ''Content-Disposition'' = Some v \<and> P (''Content-Disposition: '' @ v @ CRLF))
   \<or> (\<exists>v. hdrcache ''Content-Description'' = Some v \<and> P (''Content-Description: '' @ v @ CRLF))
   \<or> P (''Content-Length: '' @ dec (length data mod 2 ^ 32) @ CRLF)
   \<or> P (''MIME-Version: 1.0'' @ CRLF @ CRLF)"
  unfolding upload_headers_def Let_def set_append bex_Un bex_set_case_option bex_set_case_domain
  by (simp only: list.set bex_empty bex_simps simp_thms disj_assoc)

lemma upload_headers_binary:
  "(''Content-Transfer-Encoding: BINARY'' @ CRLF) \<in> set (upload_headers hs now hdrcache data)
     \<longleftrightarrow> data_domain data = DOMAIN_BINARY"
proof -
  have "(''Content-Transfer-Encoding: BINARY'' @ CRLF) \<in> set (upload_headers hs now hdrcache data)
     \<longleftrightarrow> (\<exists>h \<in> set (upload_headers hs now hdrcache data). h = ''Content-Transfer-Encoding: BINARY'' @ CRLF)"
    by blast
  also have "\<dots> \<longleftrightarrow> data_domain data = DOMAIN_BINARY"
    unfolding upload_headers_bex by (simp add: CRLF_def)
  finally show ?thesis .
qed

lemma upload_headers_8bit:
  "(''Content-Transfer-Encoding: 8BIT'' @ CRLF) \<in> set (upload_headers hs now hdrcache data)
     \<longleftrightarrow> data_domain data = DOMAIN_8BIT"
proof -
  have "(''Content-Transfer-Encoding: 8BIT'' @ CRLF) \<in> set (upload_headers hs now hdrcache data)
     \<longleftrightarrow> (\<exists>h \<in> set (upload_headers hs now hdrcache data). h = ''Content-Transfer-Encoding: 8BIT'' @ CRLF)"
    by blast
  also have "\<dots> \<longleftrightarrow> data_domain data = DOMAIN_8BIT"
    unfolding upload_headers_bex by (simp add: CRLF_def)
  finally show ?thesis .
qed

lemma upload_headers_encoding:
  "(\<exists>h \<in> set (upload_headers hs now hdrcache data). prefix ''Content-Transfer-Encoding:'' h)
     \<longleftrightarrow> data_domain data \<noteq> DOMAIN_7BIT"
proof -
  have "(\<exists>h \<in> set (upload_headers hs now hdrcache data). prefix ''Content-Transfer-Encoding:'' h)
     \<longleftrightarrow> data_domain data = DOMAIN_8BIT \<or> data_domain data = DOMAIN_BINARY"
    unfolding upload_headers_bex by (simp add: CRLF_def)
  also have "\<dots> \<longleftrightarrow> data_domain data \<noteq> DOMAIN_7BIT"
    by (cases "data_domain data") simp_all
  finally show ?thesis .
qed

lemma high_bit_digit7: "high_bit c = digit7 c"
proof (cases c)
  case (Char b0 b1 b2 b3 b4 b5 b6 b7)
  have "((of_char c :: 8 word) AND 0x80 \<noteq> 0) = bit (of_char c :: 8 word) 7"
    using and_exp_eq_0_iff_not_bit [of "of_char c :: 8 word" 7] by simp
  also have "\<dots> = b7"
    unfolding Char by (simp add: bit_simps)
  finally show ?thesis using Char by (simp add: high_bit_def)
qed

lemma high_bit_iff: "high_bit c \<longleftrightarrow> 128 \<le> (of_char c :: nat)"
proof (cases c)
  case (Char b0 b1 b2 b3 b4 b5 b6 b7)
  show ?thesis unfolding high_bit_digit7 Char by simp
qed

text \<open>
  Claim C8.  Whenever an upload stages a message, the staged data is the uploaded
  body; the header holds the line  Content-Transfer-Encoding: BINARY  exactly when the
  body has a zero byte, the line  Content-Transfer-Encoding: 8BIT  exactly when it has
  no zero byte but a byte with the high bit set, and no Content-Transfer-Encoding line
  at all exactly when the body is pure 7-bit data.
\<close>

theorem jmap_upload_transfer_encoding:
  assumes "stagefile (jmap_upload be hs settings now txn) = Some (hdrs, data)"
  shows "data = payload txn
     \<and> ((''Content-Transfer-Encoding: BINARY'' @ CRLF) \<in> set hdrs \<longleftrightarrow> CHR 0x00 \<in> set data)
     \<and> ((''Content-Transfer-Encoding: 8BIT'' @ CRLF) \<in> set hdrs
          \<longleftrightarrow> CHR 0x00 \<notin> set data \<and> (\<exists>c \<in> set data. high_bit c))
     \<and> ((\<exists>h \<in> set hdrs. prefix ''Content-Transfer-Encoding:'' h)
          \<longleftrightarrow> CHR 0x00 \<in> set data \<or> (\<exists>c \<in> set data. high_bit c))"
proof -
  from jmap_upload_stagefile [OF assms]
  have h: "hdrs = upload_headers hs now (req_hdrs txn) (payload txn)" and d: "data = payload txn"
    by simp_all
  show ?thesis
    unfolding h d upload_headers_binary upload_headers_8bit upload_headers_encoding
      data_domain_binary data_domain_8bit data_domain_7bit
    by auto
qed

theorem jmap_upload_transfer_encoding_witness:
  "stagefile (jmap_upload ex_backend ex_httpd ex_settings 1000
       (ex_upload\<lparr>payload := [CHR ''a'', CHR 0xE9]\<rparr>)) =
     Some (upload_headers ex_httpd 1000 Map.empty [CHR ''a'', CHR 0xE9], [CHR ''a'', CHR 0xE9])
   \<and> (''Content-Transfer-Encoding: 8BIT'' @ CRLF)
        \<in> set (upload_headers ex_httpd 1000 Map.empty [CHR ''a'', CHR 0xE9])
   \<and> (''Content-Transfer-Encoding: BINARY'' @ CRLF)
        \<notin> set (upload_headers ex_httpd 1000 Map.empty [CHR ''a'', CHR 0xE9])"
proof -
  have sf: "stagefile (jmap_upload ex_backend ex_httpd ex_settings 1000
       (ex_upload\<lparr>payload := [CHR ''a'', CHR 0xE9]\<rparr>)) =
     Some (upload_headers ex_httpd 1000 Map.empty [CHR ''a'', CHR 0xE9], [CHR ''a'', CHR 0xE9])"
    by (simp add: jmap_upload_def ex_upload_def ex_settings_limit Let_def
          create_upload_collection_def lookup_upload_collection_def open_upload_mailbox_def
          ex_backend_def ex_httpd_def strcmpsafe_def upload_done_def json_response_def result0_def)
  have hb: "high_bit (CHR 0xE9)" by (simp add: high_bit_def)
  from jmap_upload_transfer_encoding [OF sf] hb sf show ?thesis by simp
qed

subsection \<open>Malformed upload resources\<close>

lemma upload_resource_ok_iff:
  "upload_resource_ok r \<longleftrightarrow> (\<exists>a. r = a @ ''/'' \<and> CHR ''/'' \<notin> set a)"
  unfolding upload_resource_ok_def
  by (metis append_butlast_last_id butlast_snoc last_snoc snoc_eq_iff_butlast)

lemma strchr_slash_ok:
  assumes "strchr r CHR ''/'' = Some slash" "tl slash = []"
  shows "upload_resource_ok r"
proof -
  from strchr_split [OF assms(1)] assms(2)
  have "r = takeWhile (\<lambda>x. x \<noteq> CHR ''/'') r @ ''/''" by (cases slash) auto
  with takeWhile_not_mem [of "CHR ''/''" r] show ?thesis
    unfolding upload_resource_ok_iff by blast
qed

text \<open>
  Claim C10, as amended.  When the body of an upload request has been read and does not
  exceed maxSizeUpload, and the resource is not an account id followed by a single
  trailing slash with nothing after it, the request fails with 404 Not Found and the
  handler has made no call into the store: nothing is staged or appended.  (The size of
  the body is checked before the resource: a body over the limit is answered with 413
  whatever the resource is, as the counterexample shows.)
\<close>

theorem jmap_upload_bad_resource:
  assumes "req_body_r txn = None"
      and "length (payload txn) \<le> unat (limits settings MAX_SIZE_UPLOAD)"
      and "\<not> upload_resource_ok (resource txn)"
  shows "ret (jmap_upload be hs settings now txn) = Some HTTP_NOT_FOUND
     \<and> events (jmap_upload be hs settings now txn) = []
     \<and> stagefile (jmap_upload be hs settings now txn) = None
     \<and> resp (jmap_upload be hs settings now txn) = None"
proof (cases "strchr (resource txn) CHR ''/''")
  case None
  then show ?thesis using assms(1,2)
    by (simp add: jmap_upload_def Let_def upload_done_def result0_def)
next
  case (Some slash)
  with assms(3) strchr_slash_ok have "tl slash \<noteq> []" by blast
  then show ?thesis using assms(1,2) Some
    by (simp add: jmap_upload_def Let_def upload_done_def result0_def)
qed

theorem jmap_upload_bad_resource_witness:
  "req_body_r (ex_upload\<lparr>resource := ''alice/x''\<rparr>) = None
   \<and> length (payload (ex_upload\<lparr>resource := ''alice/x''\<rparr>)) \<le> unat (limits ex_settings MAX_SIZE_UPLOAD)
   \<and> \<not> upload_resource_ok (resource (ex_upload\<lparr>resource := ''alice/x''\<rparr>))
   \<and> ret (jmap_upload ex_backend ex_httpd ex_settings 1000 (ex_upload\<lparr>resource := ''alice/x''\<rparr>))
       = Some HTTP_NOT_FOUND
   \<and> events (jmap_upload ex_backend ex_httpd ex_settings 1000 (ex_upload\<lparr>resource := ''alice/x''\<rparr>))
       = []"
  using jmap_upload_bad_resource [of "ex_upload\<lparr>resource := ''alice/x''\<rparr>" ex_settings
          ex_backend ex_httpd 1000]
  by (simp add: ex_upload_def ex_settings_limit upload_resource_ok_def)

theorem jmap_upload_bad_resource_counterexample:
  "\<not> upload_resource_ok ''alice''
   \<and> ret (jmap_upload ex_backend ex_httpd ex_settings 1000
        \<lparr>req_body_r = None, payload = replicate 2000 (CHR ''a''), resource = ''alice'',
         req_hdrs = Map.empty\<rparr>) = Some HTTP_PAYLOAD_TOO_LARGE
   \<and> ret (jmap_upload ex_backend ex_httpd ex_settings 1000
        \<lparr>req_body_r = None, payload = replicate 2000 (CHR ''a''), resource = ''alice'',
         req_hdrs = Map.empty\<rparr>) \<noteq> Some HTTP_NOT_FOUND"
  by (simp add: jmap_upload_def ex_settings_limit upload_resource_ok_def)

subsection \<open>Limits that are not positive\<close>








subsection \<open>Blob ids and the download endpoint\<close>

lemma hex_digit_hex: "n < 16 \<Longrightarrow> hex_digit n \<in> set hexdigits"
  unfolding hex_digit_def by (rule nth_mem) (simp add: hexdigits_def)

lemma of_char_lt_256: "(of_char c :: nat) < 256"
proof (cases c)
  case (Char b0 b1 b2 b3 b4 b5 b6 b7)
  show ?thesis unfolding Char by (simp add: of_bool_def)
qed

lemma hex_byte_hex: "set (hex_byte c) \<subseteq> set hexdigits"
proof -
  have "(of_char c :: nat) div 16 < 16"
    using of_char_lt_256 [of c] by (simp add: div_less_iff_less_mult)
  then have "hex_digit (of_char c div 16) \<in> set hexdigits" by (rule hex_digit_hex)
  moreover have "hex_digit (of_char c mod 16) \<in> set hexdigits"
    by (rule hex_digit_hex) simp
  ultimately show ?thesis by (simp add: hex_byte_def)
qed

lemma set_concat_hex: "set (concat (map hex_byte guid)) \<subseteq> set hexdigits"
proof (induction guid)
  case Nil
  show ?case by simp
next
  case (Cons c guid)
  with hex_byte_hex [of c] show ?case by simp
qed

lemma length_concat_hex: "length (concat (map hex_byte guid)) = 2 * length guid"
  by (induction guid) (simp_all add: hex_byte_def)

lemma jmap_set_blobid_shape:
  assumes "length guid = 20"
  shows "length (jmap_set_blobid guid) + 1 = JMAP_BLOBID_SIZE"
    and "deref (jmap_set_blobid guid) = CHR ''G''"
    and "length (tl (jmap_set_blobid guid)) = 40"
    and "set (tl (jmap_set_blobid guid)) \<subseteq> set hexdigits"
  using assms set_concat_hex [of guid]
  by (simp_all add: jmap_set_blobid_def JMAP_BLOBID_SIZE_def length_concat_hex deref_def)

lemma deref_blobbase:
  assumes "CHR ''/'' \<notin> set seg"
  shows "deref (seg @ CHR ''/'' # name) = CHR ''G'' \<longleftrightarrow> deref seg = CHR ''G''"
  by (cases seg) (simp_all add: deref_def)

lemma jmap_download_no_sentinel:
  assumes "dl_resource txn = acct @ ''/'' @ seg @ ''/'' @ name"
      and "CHR ''/'' \<notin> set acct" and "CHR ''/'' \<notin> set seg"
      and "deref seg \<noteq> CHR ''G''"
  shows "jmap_download be hs txn =
           result0\<lparr>ret := Some HTTP_BAD_REQUEST,
                  error_desc := Some ''invalid blobid (doesn't start with G)''\<rparr>"
proof -
  have s1: "strchr (dl_resource txn) CHR ''/'' = Some (CHR ''/'' # seg @ CHR ''/'' # name)"
    using strchr_append [OF assms(2), of "seg @ CHR ''/'' # name"] assms(1) by simp
  have s2: "strchr (seg @ CHR ''/'' # name) CHR ''/'' = Some (CHR ''/'' # name)"
    by (rule strchr_append [OF assms(3)])
  show ?thesis using assms(4)
    by (simp add: jmap_download_def Let_def s1 s2 deref_blobbase [OF assms(3)])
qed

lemma jmap_download_wrong_length:
  assumes "dl_resource txn = acct @ ''/'' @ seg @ ''/'' @ name"
      and "CHR ''/'' \<notin> set acct" and "CHR ''/'' \<notin> set seg"
      and "deref seg = CHR ''G''" and "length seg \<noteq> 41"
  shows "jmap_download be hs txn =
           result0\<lparr>ret := Some HTTP_BAD_REQUEST,
                  error_desc := Some ''invalid blobid (not 41 chars)''\<rparr>"
proof -
  have s1: "strchr (dl_resource txn) CHR ''/'' = Some (CHR ''/'' # seg @ CHR ''/'' # name)"
    using strchr_append [OF assms(2), of "seg @ CHR ''/'' # name"] assms(1) by simp
  have s2: "strchr (seg @ CHR ''/'' # name) CHR ''/'' = Some (CHR ''/'' # name)"
    by (rule strchr_append [OF assms(3)])
  show ?thesis using assms(4,5)
    by (simp add: jmap_download_def Let_def s1 s2 deref_blobbase [OF assms(3)])
qed

lemma jmap_download_accepted:
  assumes "dl_resource txn = acct @ ''/'' @ seg @ ''/'' @ name"
      and "CHR ''/'' \<notin> set acct" and "CHR ''/'' \<notin> set seg"
      and "deref seg = CHR ''G''" and "length seg = 41"
  shows "ret (jmap_download be hs txn) \<noteq> Some HTTP_BAD_REQUEST
     \<and> hd (events (jmap_download be hs txn)) = Ev_conversations_open_user acct
     \<and> (conversations_open_user be acct = None \<longrightarrow>
          events (jmap_download be hs txn) ! 1 = Ev_findblob None seg)"
proof -
  have s1: "strchr (dl_resource txn) CHR ''/'' = Some (CHR ''/'' # seg @ CHR ''/'' # name)"
    using strchr_append [OF assms(2), of "seg @ CHR ''/'' # name"] assms(1) by simp
  have s2: "strchr (seg @ CHR ''/'' # name) CHR ''/'' = Some (CHR ''/'' # name)"
    by (rule strchr_append [OF assms(3)])
  have l: "length (dl_resource txn) - length (CHR ''/'' # seg @ CHR ''/'' # name) = length acct"
    using assms(1) by simp
  have a: "take (length acct) (dl_resource txn) = acct" using assms(1) by simp
  have b: "length (seg @ CHR ''/'' # name) - length (CHR ''/'' # name) = 41"
    using assms(5) by simp
  show ?thesis
    unfolding jmap_download_def Let_def s1 option.case list.sel s2 l b xstrndup_def a
    using assms(4,5)
    by (simp add: deref_blobbase [OF assms(3)] download_done_def result0_def
          split: option.split sum.split prod.split)
qed

text \<open>
  Claim C1, as amended.  A blob id is a printable token of JMAP_BLOBID_SIZE - 1 = 41
  characters (42 with the terminator): the sentinel 'G' followed by the 40 hexadecimal
  characters of the 20-byte content digest.  For every download request whose resource
  has an account segment and a blobId segment, each closed by a slash, the blobId
  segment passes the check of its shape exactly when it begins with 'G' and is 41
  characters long, and the request is rejected with 400 Bad Request otherwise; the
  characters after the sentinel are not tested for being hexadecimal.  An accepted
  segment is the blob id handed to the lookup of the blob.
\<close>

theorem jmap_blobid_shape:
  "(length guid = 20 \<longrightarrow>
      length (jmap_set_blobid guid) + 1 = JMAP_BLOBID_SIZE
    \<and> deref (jmap_set_blobid guid) = CHR ''G''
    \<and> length (tl (jmap_set_blobid guid)) = 40
    \<and> set (tl (jmap_set_blobid guid)) \<subseteq> set hexdigits)
   \<and> (dl_resource txn = acct @ ''/'' @ seg @ ''/'' @ name
       \<and> CHR ''/'' \<notin> set acct \<and> CHR ''/'' \<notin> set seg \<longrightarrow>
        (ret (jmap_download be hs txn) = Some HTTP_BAD_REQUEST
           \<longleftrightarrow> \<not> (deref seg = CHR ''G'' \<and> length seg + 1 = JMAP_BLOBID_SIZE))
      \<and> (deref seg = CHR ''G'' \<and> length seg + 1 = JMAP_BLOBID_SIZE
           \<and> conversations_open_user be acct = None \<longrightarrow>
             events (jmap_download be hs txn) ! 1 = Ev_findblob None seg))"
proof (intro conjI impI)
  assume "length guid = 20"
  from jmap_set_blobid_shape [OF this]
  show "length (jmap_set_blobid guid) + 1 = JMAP_BLOBID_SIZE"
    and "deref (jmap_set_blobid guid) = CHR ''G''"
    and "length (tl (jmap_set_blobid guid)) = 40"
    and "set (tl (jmap_set_blobid guid)) \<subseteq> set hexdigits"
    by blast+
next
  assume h: "dl_resource txn = acct @ ''/'' @ seg @ ''/'' @ name
       \<and> CHR ''/'' \<notin> set acct \<and> CHR ''/'' \<notin> set seg"
  show "ret (jmap_download be hs txn) = Some HTTP_BAD_REQUEST
           \<longleftrightarrow> \<not> (deref seg = CHR ''G'' \<and> length seg + 1 = JMAP_BLOBID_SIZE)"
  proof (cases "deref seg = CHR ''G'' \<and> length seg = 41")
    case True
    with jmap_download_accepted [of txn acct seg name be hs] h show ?thesis
      by (simp add: JMAP_BLOBID_SIZE_def)
  next
    case False
    with jmap_download_no_sentinel [of txn acct seg name be hs]
      jmap_download_wrong_length [of txn acct seg name be hs] h
    show ?thesis
      by (cases "deref seg = CHR ''G''") (auto simp: JMAP_BLOBID_SIZE_def result0_def)
  qed
next
  assume h: "dl_resource txn = acct @ ''/'' @ seg @ ''/'' @ name
       \<and> CHR ''/'' \<notin> set acct \<and> CHR ''/'' \<notin> set seg"
     and g: "deref seg = CHR ''G'' \<and> length seg + 1 = JMAP_BLOBID_SIZE
           \<and> conversations_open_user be acct = None"
  with jmap_download_accepted [of txn acct seg name be hs]
  show "events (jmap_download be hs txn) ! 1 = Ev_findblob None seg"
    by (simp add: JMAP_BLOBID_SIZE_def)
qed

theorem jmap_blobid_shape_counterexample:
  "ret (jmap_download ex_backend ex_httpd
        \<lparr>dl_resource = ''alice/Gaaaaaaaaaaaaaaaaaaaaaaaaaaaaaaaaaaaaaaaaa/f'', dl_qparam_accept = None, dl_hdr_accept = None\<rparr>)
       = Some HTTP_BAD_REQUEST
   \<and> set (tl ''Gaaaaaaaaaaaaaaaaaaaaaaaaaaaaaaaaaaaaaaaaa'') \<subseteq> set hexdigits \<and> length (tl ''Gaaaaaaaaaaaaaaaaaaaaaaaaaaaaaaaaaaaaaaaaa'') = 41
   \<and> ret (jmap_download ex_backend ex_httpd
        \<lparr>dl_resource = ''alice/Gzzzzzzzzzzzzzzzzzzzzzzzzzzzzzzzzzzzzzzzz/f'', dl_qparam_accept = None, dl_hdr_accept = None\<rparr>)
       = Some HTTP_NOT_FOUND
   \<and> events (jmap_download ex_backend ex_httpd
        \<lparr>dl_resource = ''alice/Gzzzzzzzzzzzzzzzzzzzzzzzzzzzzzzzzzzzzzzzz/f'', dl_qparam_accept = None, dl_hdr_accept = None\<rparr>)
       = [Ev_conversations_open_user ''alice'', Ev_findblob None ''Gzzzzzzzzzzzzzzzzzzzzzzzzzzzzzzzzzzzzzzzz'', Ev_conversations_commit]
   \<and> \<not> set (tl ''Gzzzzzzzzzzzzzzzzzzzzzzzzzzzzzzzzzzzzzzzz'') \<subseteq> set hexdigits"
  by (simp add: jmap_download_def Let_def deref_def xstrndup_def download_done_def result0_def
        ex_backend_def ex_httpd_def ex_blobid_def hexdigits_def)

theorem jmap_blobid_shape_witness:
  "length ex_guid = 20
   \<and> dl_resource \<lparr>dl_resource = ''alice/'' @ ex_blobid @ ''/f'', dl_qparam_accept = None,
                    dl_hdr_accept = None\<rparr> = ''alice'' @ ''/'' @ ex_blobid @ ''/'' @ ''f''
   \<and> CHR ''/'' \<notin> set ''alice'' \<and> CHR ''/'' \<notin> set ex_blobid
   \<and> deref ex_blobid = CHR ''G'' \<and> length ex_blobid + 1 = JMAP_BLOBID_SIZE
   \<and> conversations_open_user ex_backend ''alice'' = None
   \<and> length (jmap_set_blobid ex_guid) + 1 = JMAP_BLOBID_SIZE
   \<and> set (tl (jmap_set_blobid ex_guid)) \<subseteq> set hexdigits
   \<and> ret (jmap_download ex_backend ex_httpd
         \<lparr>dl_resource = ''alice/'' @ ex_blobid @ ''/f'', dl_qparam_accept = None,
          dl_hdr_accept = None\<rparr>) \<noteq> Some HTTP_BAD_REQUEST
   \<and> events (jmap_download ex_backend ex_httpd
         \<lparr>dl_resource = ''alice/'' @ ex_blobid @ ''/f'', dl_qparam_accept = None,
          dl_hdr_accept = None\<rparr>) ! 1 = Ev_findblob None ex_blobid"
proof -
  have g: "length ex_guid = 20" by (simp add: ex_guid_def)
  have h: "dl_resource \<lparr>dl_resource = ''alice/'' @ ex_blobid @ ''/f'', dl_qparam_accept = None,
                    dl_hdr_accept = None\<rparr> = ''alice'' @ ''/'' @ ex_blobid @ ''/'' @ ''f''
     \<and> CHR ''/'' \<notin> set ''alice'' \<and> CHR ''/'' \<notin> set ex_blobid"
    by (simp add: ex_blobid_def)
  have k: "deref ex_blobid = CHR ''G'' \<and> length ex_blobid + 1 = JMAP_BLOBID_SIZE
     \<and> conversations_open_user ex_backend ''alice'' = None"
    by (simp add: ex_blobid_def deref_def JMAP_BLOBID_SIZE_def ex_backend_def)
  note t = jmap_blobid_shape [where guid = ex_guid and acct = "''alice''" and seg = ex_blobid
      and name = "''f''" and be = ex_backend and hs = ex_httpd
      and txn = "\<lparr>dl_resource = ''alice/'' @ ex_blobid @ ''/f'', dl_qparam_accept = None,
                   dl_hdr_accept = None\<rparr>"]
  from t g have a: "length (jmap_set_blobid ex_guid) + 1 = JMAP_BLOBID_SIZE"
    and b: "set (tl (jmap_set_blobid ex_guid)) \<subseteq> set hexdigits" by blast+
  from t h k have c: "ret (jmap_download ex_backend ex_httpd
         \<lparr>dl_resource = ''alice/'' @ ex_blobid @ ''/f'', dl_qparam_accept = None,
          dl_hdr_accept = None\<rparr>) \<noteq> Some HTTP_BAD_REQUEST" by blast
  from t h k have d: "events (jmap_download ex_backend ex_httpd
         \<lparr>dl_resource = ''alice/'' @ ex_blobid @ ''/f'', dl_qparam_accept = None,
          dl_hdr_accept = None\<rparr>) ! 1 = Ev_findblob None ex_blobid" by blast
  from g h k a b c d show ?thesis by (simp only: simp_thms)
qed

subsection \<open>JSON objects\<close>


lemma keys_json_object_set:
  "set (map fst (json_object_set m k v)) = insert k (set (map fst m))"
  by (induction m k v rule: json_object_set.induct) auto

lemma distinct_json_object_set:
  "distinct (map fst m) \<Longrightarrow> distinct (map fst (json_object_set m k v))"
  using keys_json_object_set [of _ k v]
  by (induction m k v rule: json_object_set.induct) auto

lemma json_object_get_None: "json_object_get m k = None \<longleftrightarrow> k \<notin> set (map fst m)"
  by (induction m k rule: json_object_get.induct) auto



subsection \<open>Blob/copy\<close>


lemma blob_copy_loop_abort:
  assumes "fst (jmap_copyblob be x (from_account_id copy) to_mbox) = Some r"
      and "r \<noteq> IMAP_NOTFOUND" and "r \<noteq> IMAP_PERMISSION_DENIED"
  shows "blob_copy_loop be hs to_mbox (x # xs) copy ev
           = (Some r, copy, ev @ snd (jmap_copyblob be x (from_account_id copy) to_mbox))"
  using assms by (simp add: split_beta Let_def)







end
